theory Spec2Isabelle
  imports Complex_Main "HOL-Library.Multiset" "HOL-Library.Sublist"
begin

section \<open>JavaScript numbers\<close>

text \<open>
  The component (\<^verbatim>\<open>src/app/app.ts\<close>) computes on JavaScript numbers: IEEE 754 doubles. A
  number is \<^verbatim>\<open>NaN\<close>, one of the two infinities, or finite; a finite number is the rational
  it denotes. The sum and the product of two finite numbers are the exact sum and product
  rounded to the nearest double, ties to the even one, which is an infinity beyond the
  largest double. The two zeros are one value (as they are for \<^verbatim>\<open>===\<close>, \<^verbatim>\<open>||\<close>,
  \<^verbatim>\<open>String\<close> and \<^verbatim>\<open>JSON.stringify\<close>).
\<close>

datatype jsnum = NaN | NInf | Fin rat | PInf

subsection \<open>Rounding to the nearest double\<close>

text \<open>The nearest integer, the even one of two that are equally near.\<close>

definition nearest_even :: "rat \<Rightarrow> int" where
  "nearest_even x =
     (let f = \<lfloor>x\<rfloor>; d = x - of_int f
      in if d < 1 / 2 then f else if 1 / 2 < d then f + 1 else if even f then f else f + 1)"

function halvings :: "rat \<Rightarrow> nat" where
  "halvings a = (if 2 \<le> a then Suc (halvings (a / 2)) else 0)"
  by pat_completeness auto
termination
proof (relation "measure (\<lambda>a. nat \<lfloor>a\<rfloor>)")
  show "wf (measure (\<lambda>a::rat. nat \<lfloor>a\<rfloor>))" by simp
next
  fix a :: rat
  assume "2 \<le> a"
  then have "a / 2 \<le> a - 1" by simp
  then have "\<lfloor>a / 2\<rfloor> \<le> \<lfloor>a - 1\<rfloor>" by (rule floor_mono)
  moreover have "2 \<le> \<lfloor>a\<rfloor>" using \<open>2 \<le> a\<close> by (simp add: le_floor_iff)
  ultimately show "(a / 2, a) \<in> measure (\<lambda>a. nat \<lfloor>a\<rfloor>)" by simp
qed

function doublings :: "rat \<Rightarrow> nat" where
  "doublings a = (if 0 < a \<and> a < 1 then Suc (doublings (2 * a)) else 0)"
  by pat_completeness auto
termination
proof (relation "measure (\<lambda>a. nat \<lfloor>1 / a\<rfloor>)")
  show "wf (measure (\<lambda>a::rat. nat \<lfloor>1 / a\<rfloor>))" by simp
next
  fix a :: rat
  assume a: "0 < a \<and> a < 1"
  define x where "x = 1 / a"
  from a have x: "1 < x" by (simp add: x_def)
  have "x / 2 < of_int \<lfloor>x\<rfloor>"
  proof (cases "2 \<le> x")
    case True
    then have "x / 2 \<le> x - 1" by simp
    also have "\<dots> < of_int \<lfloor>x\<rfloor>" by linarith
    finally show ?thesis .
  next
    case False
    with x have "\<lfloor>x\<rfloor> = 1" by (simp add: floor_eq_iff)
    with False show ?thesis by simp
  qed
  then have "\<lfloor>x / 2\<rfloor> < \<lfloor>x\<rfloor>" by (simp add: floor_less_iff)
  moreover have "0 < \<lfloor>x\<rfloor>" using x by (simp add: less_floor_iff)
  moreover have "1 / (2 * a) = x / 2" by (simp add: x_def)
  ultimately have "nat \<lfloor>1 / (2 * a)\<rfloor> < nat \<lfloor>1 / a\<rfloor>"
    unfolding x_def [symmetric] by (simp only: )
  then show "(2 * a, a) \<in> measure (\<lambda>a. nat \<lfloor>1 / a\<rfloor>)" by simp
qed

declare halvings.simps [simp del]
declare doublings.simps [simp del]

text \<open>
  The exponent of the last place of the doubles next to \<open>a > 0\<close>: 52 binary places below
  the leading one, and never below \<open>-1074\<close>, the last place of the subnormal doubles.
\<close>

definition last_place :: "rat \<Rightarrow> int" where
  "last_place a = max (- 1074) ((if 1 \<le> a then int (halvings a) else - int (doublings a)) - 52)"

text \<open>Two to the power \<open>e\<close>.\<close>

definition pow2 :: "int \<Rightarrow> rat" where
  "pow2 e = (if 0 \<le> e then 2 ^ nat e else 1 / 2 ^ nat (- e))"

text \<open>The double nearest to \<open>r\<close>; an infinity from \<open>2\<^sup>1\<^sup>0\<^sup>2\<^sup>4\<close> on.\<close>

definition to_double :: "rat \<Rightarrow> jsnum" where
  "to_double r =
     (if r = 0 then Fin 0
      else let a = \<bar>r\<bar>; u = pow2 (last_place a); v = of_int (nearest_even (a / u)) * u
           in if 2 ^ 1024 \<le> v then (if r < 0 then NInf else PInf)
              else Fin (if r < 0 then - v else v))"

subsection \<open>Arithmetic\<close>

instantiation jsnum :: "{plus, uminus, minus, times}"
begin

fun plus_jsnum :: "jsnum \<Rightarrow> jsnum \<Rightarrow> jsnum" where
  "plus_jsnum NaN y = NaN"
| "plus_jsnum x NaN = NaN"
| "plus_jsnum (Fin a) (Fin b) = to_double (a + b)"
| "plus_jsnum PInf NInf = NaN"
| "plus_jsnum NInf PInf = NaN"
| "plus_jsnum PInf y = PInf"
| "plus_jsnum x PInf = PInf"
| "plus_jsnum NInf y = NInf"
| "plus_jsnum x NInf = NInf"

fun uminus_jsnum :: "jsnum \<Rightarrow> jsnum" where
  "uminus_jsnum NaN = NaN"
| "uminus_jsnum NInf = PInf"
| "uminus_jsnum (Fin a) = Fin (- a)"
| "uminus_jsnum PInf = NInf"

definition minus_jsnum :: "jsnum \<Rightarrow> jsnum \<Rightarrow> jsnum" where
  "minus_jsnum x y = x + (- y)"

text \<open>The sign of a product with an infinite factor; a zero factor gives \<^verbatim>\<open>NaN\<close>.\<close>

fun signed_inf :: "bool \<Rightarrow> jsnum" where
  "signed_inf neg = (if neg then NInf else PInf)"

fun times_jsnum :: "jsnum \<Rightarrow> jsnum \<Rightarrow> jsnum" where
  "times_jsnum NaN y = NaN"
| "times_jsnum x NaN = NaN"
| "times_jsnum (Fin a) (Fin b) = to_double (a * b)"
| "times_jsnum (Fin a) PInf = (if a = 0 then NaN else signed_inf (a < 0))"
| "times_jsnum (Fin a) NInf = (if a = 0 then NaN else signed_inf (0 < a))"
| "times_jsnum PInf (Fin b) = (if b = 0 then NaN else signed_inf (b < 0))"
| "times_jsnum NInf (Fin b) = (if b = 0 then NaN else signed_inf (0 < b))"
| "times_jsnum PInf PInf = PInf"
| "times_jsnum NInf NInf = PInf"
| "times_jsnum PInf NInf = NInf"
| "times_jsnum NInf PInf = NInf"

instance ..

end

section \<open>JavaScript values\<close>

text \<open>
  What \<^verbatim>\<open>JSON.parse\<close> returns and what the form hands over: the JSON values, and
  \<^verbatim>\<open>undefined\<close> for a property that is not there. An object is the list of its own
  properties, each name once. An object or array carries its reference, the identity that
  \<^verbatim>\<open>===\<close> compares: \<^verbatim>\<open>JSON.parse\<close> gives every object and array it creates a reference of
  its own.
\<close>

type_synonym ref = nat

datatype jsval =
  Undefined | Null | Bool bool | Num jsnum | Str string
  | Arr ref "jsval list" | Obj ref "(string \<times> jsval) list"

type_synonym props = "(string \<times> jsval) list"

datatype exn = SyntaxError | TypeError

text \<open>\<^verbatim>\<open>p.k\<close> on an object with the own properties \<open>ps\<close>.\<close>

definition get :: "props \<Rightarrow> string \<Rightarrow> jsval" where
  "get ps k = (case map_of ps k of None \<Rightarrow> Undefined | Some v \<Rightarrow> v)"

text \<open>The truth value of a value in \<^verbatim>\<open>if (v)\<close>, \<^verbatim>\<open>!v\<close> and \<^verbatim>\<open>v || w\<close>.\<close>

fun truthy :: "jsval \<Rightarrow> bool" where
  "truthy Undefined = False"
| "truthy Null = False"
| "truthy (Bool b) = b"
| "truthy (Num n) = (n \<noteq> NaN \<and> n \<noteq> Fin 0)"
| "truthy (Str s) = (s \<noteq> [])"
| "truthy (Arr r xs) = True"
| "truthy (Obj r ps) = True"

text \<open>
  \<^verbatim>\<open>a === b\<close>: numbers, strings and booleans by value, \<^verbatim>\<open>NaN\<close> equal to nothing, objects
  and arrays by reference. One object has the same contents wherever it occurs (the
  program changes no object that is an \<^verbatim>\<open>id\<close>), so two values are the same object exactly
  when they are equal, reference and contents.
\<close>

definition strict_eq :: "jsval \<Rightarrow> jsval \<Rightarrow> bool" where
  "strict_eq a b = (a = b \<and> a \<noteq> Num NaN)"

text \<open>\<^verbatim>\<open>x || 0\<close> on a number \<open>x\<close>: zero and \<^verbatim>\<open>NaN\<close> are falsy.\<close>

definition or0 :: "jsnum \<Rightarrow> jsnum" where
  "or0 x = (if x = NaN \<or> x = Fin 0 then Fin 0 else x)"

text \<open>
  Exceptions are values: \<open>Inl e\<close> is a statement that threw \<open>e\<close>, and \<open>bind_exn\<close> runs
  the next statement only after the one before it has returned.
\<close>

fun bind_exn :: "exn + 'a \<Rightarrow> ('a \<Rightarrow> exn + 'b) \<Rightarrow> exn + 'b" where
  "bind_exn (Inl e) f = Inl e"
| "bind_exn (Inr x) f = f x"

text \<open>\<^verbatim>\<open>xs.forEach(f)\<close> and \<^verbatim>\<open>xs.map(f)\<close> with a body that may throw: the first exception ends the loop.\<close>

fun traverse :: "('a \<Rightarrow> exn + 'b) \<Rightarrow> 'a list \<Rightarrow> exn + 'b list" where
  "traverse f [] = Inr []"
| "traverse f (x # xs) =
     bind_exn (f x) (\<lambda>y. bind_exn (traverse f xs) (\<lambda>ys. Inr (y # ys)))"

text \<open>
  \<^verbatim>\<open>Number(v)\<close>. The conversion of \<^verbatim>\<open>undefined\<close>, \<^verbatim>\<open>null\<close>, booleans and numbers is
  the language's table. The conversion of a string (the engine's numeric-literal
  grammar) and of an object or array (through its primitive value, which can throw) is
  the engine's: the parameter \<open>conv\<close>.
\<close>

type_synonym conv = "jsval \<Rightarrow> exn + jsnum"

fun Number :: "conv \<Rightarrow> jsval \<Rightarrow> exn + jsnum" where
  "Number conv Undefined = Inr NaN"
| "Number conv Null = Inr (Fin 0)"
| "Number conv (Bool b) = Inr (Fin (if b then 1 else 0))"
| "Number conv (Num n) = Inr n"
| "Number conv v = conv v"

section \<open>Items and the component's state\<close>

text \<open>
  \<^verbatim>\<open>interface Item\<close> (lines 13-20). The four numeric properties are numbers in every item
  the component stores, since each is written as \<^verbatim>\<open>Number(..) || 0\<close>. \<^verbatim>\<open>id\<close> and
  \<^verbatim>\<open>name\<close> are declared \<^verbatim>\<open>string\<close>, but the arrays read from storage or from a file are
  cast, not checked: they hold whatever the JSON holds, or \<^verbatim>\<open>undefined\<close>. \<open>other\<close> is the
  remainder of the object, which only \<^verbatim>\<open>JSON.stringify\<close> reads: its further properties,
  or its elements when the entry is itself an array.
\<close>

datatype remainder = Props props | Elems "jsval list"

record item =
  item_id :: jsval
  name :: jsval
  price :: jsnum
  cost :: jsnum
  amazonFees :: jsnum
  sold :: jsnum
  other :: remainder

text \<open>
  The state: the \<^verbatim>\<open>items\<close> signal; the collection last serialised into the storage slot
  \<^verbatim>\<open>amazon-items\<close> by \<^verbatim>\<open>saveLocal\<close> (\<open>None\<close> before the first write); the messages shown with
  \<^verbatim>\<open>alert\<close>; the lines written to the console. Writes to storage are taken to succeed.
\<close>

record app =
  items :: "item list"
  stored :: "item list option"
  alerts :: "string list"
  console :: "string list"

definition init :: app where
  "init = \<lparr>items = [], stored = None, alerts = [], console = []\<rparr>"

subsection \<open>Totals (lines 71-85) and per-item profit (lines 108-110)\<close>

definition totalSold :: "item list \<Rightarrow> jsnum" where
  "totalSold its = foldl (\<lambda>s it. s + or0 (sold it)) (Fin 0) its"

definition totalRevenue :: "item list \<Rightarrow> jsnum" where
  "totalRevenue its = foldl (\<lambda>s it. s + or0 (price it) * or0 (sold it)) (Fin 0) its"

definition totalCost :: "item list \<Rightarrow> jsnum" where
  "totalCost its = foldl (\<lambda>s it. s + or0 (cost it) * or0 (sold it)) (Fin 0) its"

definition totalFees :: "item list \<Rightarrow> jsnum" where
  "totalFees its = foldl (\<lambda>s it. s + or0 (amazonFees it) * or0 (sold it)) (Fin 0) its"

definition totalProfit :: "item list \<Rightarrow> jsnum" where
  "totalProfit its = totalRevenue its - totalCost its - totalFees its"

definition perItemProfit :: "item \<Rightarrow> jsnum" where
  "perItemProfit it =
     (or0 (price it) - or0 (cost it) - or0 (amazonFees it)) * or0 (sold it)"


subsection \<open>Sanitizing an entry (lines 94-99, 117-120, 171-176)\<close>

text \<open>
  \<^verbatim>\<open>p.price = Number(p.price) || 0\<close> and its three siblings, on an entry \<open>p\<close> of a parsed
  array. Reading a property of \<^verbatim>\<open>null\<close> throws, and so does, in a class body (strict
  code), writing a property of a number, string or boolean: only an object or an array
  has properties to sanitize. An array from \<^verbatim>\<open>JSON.parse\<close> has none of the six.
\<close>

definition extra_props :: "props \<Rightarrow> remainder" where
  "extra_props ps =
     Props (filter (\<lambda>(k, v). k \<notin> {''id'', ''name'', ''price'', ''cost'', ''amazonFees'', ''sold''}) ps)"

fun own_props :: "jsval \<Rightarrow> exn + props \<times> remainder" where
  "own_props (Obj r ps) = Inr (ps, extra_props ps)"
| "own_props (Arr r xs) = Inr ([], Elems xs)"
| "own_props v = Inl TypeError"

definition num_prop :: "conv \<Rightarrow> props \<Rightarrow> string \<Rightarrow> exn + jsnum" where
  "num_prop conv ps k = bind_exn (Number conv (get ps k)) (\<lambda>n. Inr (or0 n))"

definition sanitize_props :: "conv \<Rightarrow> props \<Rightarrow> remainder \<Rightarrow> exn + item" where
  "sanitize_props conv ps r =
     bind_exn (num_prop conv ps ''price'') (\<lambda>p.
     bind_exn (num_prop conv ps ''cost'') (\<lambda>c.
     bind_exn (num_prop conv ps ''amazonFees'') (\<lambda>f.
     bind_exn (num_prop conv ps ''sold'') (\<lambda>s.
       Inr \<lparr>item_id = get ps ''id'', name = get ps ''name'',
            price = p, cost = c, amazonFees = f, sold = s, other = r\<rparr>))))"

definition sanitize :: "conv \<Rightarrow> jsval \<Rightarrow> exn + item" where
  "sanitize conv p = bind_exn (own_props p) (\<lambda>(ps, r). sanitize_props conv ps r)"

subsection \<open>Generated identifiers (lines 127, 176)\<close>

text \<open>
  \<^verbatim>\<open>Date.now().toString(36) + Math.random().toString(36).slice(2, 7)\<close>. The clock's
  milliseconds \<open>now\<close> and the characters \<open>rnd\<close> cut from the random number are the
  environment's.
\<close>

definition digit36 :: "nat \<Rightarrow> char" where
  "digit36 d = ''0123456789abcdefghijklmnopqrstuvwxyz'' ! d"

function base36 :: "nat \<Rightarrow> string" where
  "base36 n = (if n < 36 then [digit36 n] else base36 (n div 36) @ [digit36 (n mod 36)])"
  by pat_completeness auto
termination
  by (relation "measure (\<lambda>n. n)") auto

definition new_id :: "nat \<times> string \<Rightarrow> string" where
  "new_id env = base36 (fst env) @ snd env"

subsection \<open>Loading (constructor, lines 87-105)\<close>

text \<open>
  What \<^verbatim>\<open>localStorage.getItem('amazon-items')\<close> returns: \<^verbatim>\<open>null\<close> when the slot is absent,
  the empty string, or a text that is not empty. The text is used twice only: in
  \<^verbatim>\<open>if (saved)\<close>, which is false on \<^verbatim>\<open>null\<close> and on the empty string, and as the argument of
  \<^verbatim>\<open>JSON.parse\<close>, whose outcome stands for the text (\<open>Inl SyntaxError\<close>, or the value parsed).
\<close>

datatype slot = Absent | Empty_string | Text "exn + jsval"

text \<open>The body of the \<^verbatim>\<open>try\<close>; \<^verbatim>\<open>parsed.forEach\<close> is a function only on an array.\<close>

definition load_body :: "conv \<Rightarrow> exn + jsval \<Rightarrow> exn + item list" where
  "load_body conv parse_result =
     bind_exn parse_result (\<lambda>parsed.
       case parsed of Arr r xs \<Rightarrow> traverse (sanitize conv) xs | _ \<Rightarrow> Inl TypeError)"

definition App_constructor :: "conv \<Rightarrow> slot \<Rightarrow> app" where
  "App_constructor conv saved =
     (case saved of
        Absent \<Rightarrow> init
      | Empty_string \<Rightarrow> init
      | Text parse_result \<Rightarrow>
          (case load_body conv parse_result of
             Inr parsed \<Rightarrow> init\<lparr>items := parsed\<rparr>
           | Inl e \<Rightarrow> init\<lparr>console := [''Failed to parse saved items'']\<rparr>))"

subsection \<open>Add or update, remove, save (lines 113-148)\<close>

definition saveLocal :: "app \<Rightarrow> app" where
  "saveLocal a = a\<lparr>stored := Some (items a)\<rparr>"

text \<open>
  \<open>invalid\<close> is \<^verbatim>\<open>this.form.invalid\<close>, computed by the framework's validators; \<open>val\<close> is
  the form's value object; \<open>env\<close> is read when an identifier is generated. An exception
  of \<^verbatim>\<open>Number\<close> leaves the handler before anything is written.
\<close>

definition addOrUpdate :: "conv \<Rightarrow> bool \<Rightarrow> props \<Rightarrow> nat \<times> string \<Rightarrow> app \<Rightarrow> exn + app" where
  "addOrUpdate conv invalid val env a =
     (if invalid then Inr a
      else bind_exn (sanitize_props conv val (extra_props val)) (\<lambda>v.
        Inr (saveLocal
          (if truthy (item_id v)
           then a\<lparr>items := map (\<lambda>i. if strict_eq (item_id i) (item_id v) then v else i) (items a)\<rparr>
           else a\<lparr>items := items a @ [v\<lparr>item_id := Str (new_id env)\<rparr>]\<rparr>))))"

definition remove :: "item \<Rightarrow> app \<Rightarrow> app" where
  "remove it a =
     saveLocal (a\<lparr>items := filter (\<lambda>i. \<not> strict_eq (item_id i) (item_id it)) (items a)\<rparr>)"

subsection \<open>JSON import (\<^verbatim>\<open>reader.onload\<close>, lines 166-187)\<close>

text \<open>
  The entry at position \<open>k\<close> reads the environment \<open>gen k\<close> if it needs an identifier.
  \<open>parse_result\<close> is the outcome of \<^verbatim>\<open>JSON.parse(String(reader.result))\<close>.
\<close>

definition import_entry :: "conv \<Rightarrow> nat \<times> string \<Rightarrow> jsval \<Rightarrow> exn + item" where
  "import_entry conv env p =
     bind_exn (sanitize conv p) (\<lambda>it.
       Inr (if \<not> truthy (item_id it) then it\<lparr>item_id := Str (new_id env)\<rparr> else it))"

definition import_body :: "conv \<Rightarrow> (nat \<Rightarrow> nat \<times> string) \<Rightarrow> exn + jsval \<Rightarrow> exn + item list option" where
  "import_body conv gen parse_result =
     bind_exn parse_result (\<lambda>data.
       case data of
         Arr r xs \<Rightarrow>
           bind_exn (traverse (\<lambda>(k, p). import_entry conv (gen k) p) (enumerate 0 xs))
             (\<lambda>its. Inr (Some its))
       | _ \<Rightarrow> Inr None)"

definition uploadJSON_onload :: "conv \<Rightarrow> (nat \<Rightarrow> nat \<times> string) \<Rightarrow> exn + jsval \<Rightarrow> app \<Rightarrow> app" where
  "uploadJSON_onload conv gen parse_result a =
     (case import_body conv gen parse_result of
        Inr (Some data) \<Rightarrow>
          saveLocal (a\<lparr>items := data, console := console a @ [''Uploading items'']\<rparr>)
      | Inr None \<Rightarrow> a\<lparr>alerts := alerts a @ [''Uploaded JSON must be an array of items'']\<rparr>
      | Inl e \<Rightarrow> a\<lparr>alerts := alerts a @ [''Invalid JSON file'']\<rparr>)"


subsection \<open>CSV export (lines 194-227)\<close>

text \<open>
  \<^verbatim>\<open>String(cell)\<close>. A finite number that is an integer of magnitude at most \<open>2\<^sup>5\<^sup>3\<close> is
  written with its decimal digits; the digits of any other finite number (the shortest
  that read back as the same double) are the engine's, the parameter \<open>digits\<close>, and so
  is the string of an object or array, whose conversion can throw (the parameter
  \<open>obj_string\<close>).
\<close>

function decimal :: "nat \<Rightarrow> string" where
  "decimal n =
     (if n < 10 then [''0123456789'' ! n] else decimal (n div 10) @ [''0123456789'' ! (n mod 10)])"
  by pat_completeness auto
termination
  by (relation "measure (\<lambda>n. n)") auto

fun Number_toString :: "(rat \<Rightarrow> string) \<Rightarrow> jsnum \<Rightarrow> string" where
  "Number_toString digits NaN = ''NaN''"
| "Number_toString digits PInf = ''Infinity''"
| "Number_toString digits NInf = ''-Infinity''"
| "Number_toString digits (Fin r) =
     (if of_int \<lfloor>r\<rfloor> = r \<and> \<bar>r\<bar> \<le> 2 ^ 53
      then (if r < 0 then ''-'' else []) @ decimal (nat \<lfloor>\<bar>r\<bar>\<rfloor>)
      else digits r)"

fun String :: "(rat \<Rightarrow> string) \<Rightarrow> (jsval \<Rightarrow> exn + string) \<Rightarrow> jsval \<Rightarrow> exn + string" where
  "String digits obj_string Undefined = Inr ''undefined''"
| "String digits obj_string Null = Inr ''null''"
| "String digits obj_string (Bool b) = Inr (if b then ''true'' else ''false'')"
| "String digits obj_string (Num n) = Inr (Number_toString digits n)"
| "String digits obj_string (Str s) = Inr s"
| "String digits obj_string v = obj_string v"

text \<open>\<^verbatim>\<open>xs.join(sep)\<close> on strings.\<close>

fun join :: "string \<Rightarrow> string list \<Rightarrow> string" where
  "join sep [] = []"
| "join sep [x] = x"
| "join sep (x # y # ys) = x @ sep @ join sep (y # ys)"

text \<open>The cell's string with every double quote (character \<open>0x22\<close>) doubled, in double quotes.\<close>

definition quoted :: "string \<Rightarrow> string" where
  "quoted s =
     [CHR 0x22] @ concat (map (\<lambda>c. if c = CHR 0x22 then [CHR 0x22, CHR 0x22] else [c]) s) @ [CHR 0x22]"

definition csv_row ::
  "(rat \<Rightarrow> string) \<Rightarrow> (jsval \<Rightarrow> exn + string) \<Rightarrow> jsval list \<Rightarrow> exn + string" where
  "csv_row digits obj_string r =
     bind_exn (traverse (\<lambda>cell. bind_exn (String digits obj_string cell) (\<lambda>s. Inr (quoted s))) r)
       (\<lambda>cells. Inr (join '','' cells))"

definition allRows :: "item list \<Rightarrow> jsval list list" where
  "allRows its =
     (let header = map Str [''name'', ''price'', ''cost'', ''amazonFees'', ''sold'', ''profit''];
          rows = map (\<lambda>it. [name it, Num (price it), Num (cost it), Num (amazonFees it),
                             Num (sold it), Num (perItemProfit it)]) its;
          totalsRow = [Str ''TOTALS'', Num (totalRevenue its), Num (totalCost its),
                       Num (totalFees its), Num (totalSold its), Num (totalProfit its)]
      in [header] @ rows @ [totalsRow])"

definition exportCSV ::
  "(rat \<Rightarrow> string) \<Rightarrow> (jsval \<Rightarrow> exn + string) \<Rightarrow> item list \<Rightarrow> exn + string" where
  "exportCSV digits obj_string its =
     bind_exn (traverse (csv_row digits obj_string) (allRows its))
       (\<lambda>lines. Inr (join [CHR 0x0A] lines))"

subsection \<open>JSON export and re-import (lines 151-159, 166-180)\<close>

text \<open>
  \<^verbatim>\<open>JSON.parse(JSON.stringify(v))\<close> on a value inside an array or object: a number that is
  not finite, and \<^verbatim>\<open>undefined\<close> in an array, are written as \<^verbatim>\<open>null\<close>; a property whose
  value is \<^verbatim>\<open>undefined\<close> is left out; everything else is read back as written, every object
  and array as a new one: \<open>alloc r\<close> is the reference of the copy of the object \<open>r\<close>. (The
  copies of one object that the value holds at two places are two objects; they get one
  reference here, and nothing below compares two of them.)
\<close>

fun reparse :: "(ref \<Rightarrow> ref) \<Rightarrow> jsval \<Rightarrow> jsval" where
  "reparse alloc Undefined = Null"
| "reparse alloc (Num n) = (case n of Fin r \<Rightarrow> Num n | _ \<Rightarrow> Null)"
| "reparse alloc (Arr r xs) = Arr (alloc r) (map (reparse alloc) xs)"
| "reparse alloc (Obj r ps) =
     Obj (alloc r)
       (map (\<lambda>(k, v). (k, reparse alloc v)) (filter (\<lambda>(k, v). v \<noteq> Undefined) ps))"
| "reparse alloc v = v"

text \<open>
  The item as the object the array holds; of an array entry, \<^verbatim>\<open>JSON.stringify\<close> writes the
  elements only. The record does not keep the reference of the item itself, which nothing
  compares: it is written 0.
\<close>

definition item_object :: "item \<Rightarrow> jsval" where
  "item_object it =
     (case other it of
        Elems xs \<Rightarrow> Arr 0 xs
      | Props ps \<Rightarrow>
          Obj 0 ([(''id'', item_id it), (''name'', name it), (''price'', Num (price it)),
                  (''cost'', Num (cost it)), (''amazonFees'', Num (amazonFees it)),
                  (''sold'', Num (sold it))] @ ps))"

text \<open>The file \<^verbatim>\<open>downloadJSON\<close> offers, as \<^verbatim>\<open>JSON.parse\<close> reads it.\<close>

definition downloaded :: "(ref \<Rightarrow> ref) \<Rightarrow> item list \<Rightarrow> exn + jsval" where
  "downloaded alloc its = Inr (reparse alloc (Arr 0 (map item_object its)))"


section \<open>Predicates of the statements\<close>

text \<open>The four numeric properties hold numbers: none is \<^verbatim>\<open>NaN\<close>.\<close>

definition numeric :: "item \<Rightarrow> bool" where
  "numeric it = (price it \<noteq> NaN \<and> cost it \<noteq> NaN \<and> amazonFees it \<noteq> NaN \<and> sold it \<noteq> NaN)"

text \<open>The statement of the specification about one numeric property: finite and not negative.\<close>

fun finite_nonneg :: "jsnum \<Rightarrow> bool" where
  "finite_nonneg (Fin r) = (0 \<le> r)"
| "finite_nonneg n = False"

text \<open>
  The state a handler leaves: one that threw has written nothing.
\<close>

definition state_after :: "app \<Rightarrow> exn + app \<Rightarrow> app" where
  "state_after a r = (case r of Inl e \<Rightarrow> a | Inr a' \<Rightarrow> a')"

text \<open>The six properties of an item that the specification compares.\<close>

definition tuple :: "item \<Rightarrow> jsval \<times> jsval \<times> jsnum \<times> jsnum \<times> jsnum \<times> jsnum" where
  "tuple it = (item_id it, name it, price it, cost it, amazonFees it, sold it)"

text \<open>The texts \<open>xs\<close> one after the other, with \<open>sep\<close> between each two neighbours.\<close>

definition separated :: "string \<Rightarrow> string list \<Rightarrow> string" where
  "separated sep xs = (case xs of [] \<Rightarrow> [] | x # ys \<Rightarrow> x @ concat (map (\<lambda>y. sep @ y) ys))"

text \<open>
  Reading a quoted cell back: the text between the outer double quotes, with every pair
  of double quotes read as one; \<open>None\<close> when the cell is not so formed.
\<close>

fun undouble :: "string \<Rightarrow> string option" where
  "undouble [] = Some []"
| "undouble [c] = (if c = CHR 0x22 then None else Some [c])"
| "undouble (c # d # cs) =
     (if c = CHR 0x22
      then (if d = CHR 0x22 then map_option ((#) c) (undouble cs) else None)
      else map_option ((#) c) (undouble (d # cs)))"

definition unquoted :: "string \<Rightarrow> string option" where
  "unquoted s =
     (if 2 \<le> length s \<and> hd s = CHR 0x22 \<and> last s = CHR 0x22 then undouble (butlast (tl s))
      else None)"

text \<open>
  An item that \<^verbatim>\<open>JSON.stringify\<close> and \<^verbatim>\<open>JSON.parse\<close> give back with the same six properties:
  a plain object (the six names are those of the record, not of \<open>other\<close>) whose numbers
  are finite, whose \<^verbatim>\<open>id\<close> is truthy and written as it is, and whose \<^verbatim>\<open>name\<close> is
  written as it is or is \<^verbatim>\<open>undefined\<close>.
\<close>

fun finite_num :: "jsnum \<Rightarrow> bool" where
  "finite_num (Fin r) = True"
| "finite_num n = False"

definition survives_json :: "(ref \<Rightarrow> ref) \<Rightarrow> item \<Rightarrow> bool" where
  "survives_json alloc it =
     ((case other it of
         Props ps \<Rightarrow>
           list_all (\<lambda>k. map_of ps k = None)
             [''id'', ''name'', ''price'', ''cost'', ''amazonFees'', ''sold'']
       | Elems xs \<Rightarrow> False) \<and>
      finite_num (price it) \<and> finite_num (cost it) \<and> finite_num (amazonFees it) \<and>
      finite_num (sold it) \<and>
      truthy (item_id it) \<and> reparse alloc (item_id it) = item_id it \<and>
      (name it = Undefined \<or> reparse alloc (name it) = name it))"

subsection \<open>An environment for the closed examples\<close>

text \<open>
  \<open>conv10\<close> converts a string of decimal digits to its number and everything else to
  \<^verbatim>\<open>NaN\<close>, as the engine does on the strings \<^verbatim>\<open>"10"\<close> and \<^verbatim>\<open>"x"\<close> of the examples;
  \<open>clock\<close> is a clock and a source of random characters.
\<close>

definition conv10 :: conv where
  "conv10 v =
     (case v of
        Str s \<Rightarrow>
          Inr (if s \<noteq> [] \<and> list_all (\<lambda>c. c \<in> set ''0123456789'') s
               then Fin (of_nat (foldl (\<lambda>n c. 10 * n + (of_char c - 48)) 0 s))
               else NaN)
      | _ \<Rightarrow> Inr NaN)"

definition clock :: "nat \<Rightarrow> nat \<times> string" where
  "clock k = (1700000000000 + k, ''k3x9q'')"

text \<open>The references \<^verbatim>\<open>JSON.parse\<close> gives to the copies it creates, in the examples.\<close>

definition copies :: "ref \<Rightarrow> ref" where
  "copies r = r + 1000"

section \<open>Rounding and folds\<close>

declare base36.simps [simp del]
declare decimal.simps [simp del]

lemma halvings_step: "2 \<le> a \<Longrightarrow> halvings a = Suc (halvings (a / 2))"
  by (subst halvings.simps) simp

lemma halvings_stop: "a < 2 \<Longrightarrow> halvings a = 0"
  by (subst halvings.simps) simp

lemma doublings_step: "0 < a \<Longrightarrow> a < 1 \<Longrightarrow> doublings a = Suc (doublings (2 * a))"
  by (subst doublings.simps) simp

lemma doublings_stop: "1 \<le> a \<Longrightarrow> doublings a = 0"
  by (subst doublings.simps) simp

lemma nearest_even_of_int: "nearest_even (of_int m) = m"
  by (simp add: nearest_even_def)

lemma halvings_bounds: "1 \<le> a \<Longrightarrow> 2 ^ halvings a \<le> a \<and> a < 2 ^ Suc (halvings a)"
proof (induction a rule: halvings.induct)
  case (1 a)
  show ?case
  proof (cases "2 \<le> a")
    case True
    then have "1 \<le> a / 2" by simp
    with "1.IH" True have "2 ^ halvings (a / 2) \<le> a / 2 \<and> a / 2 < 2 ^ Suc (halvings (a / 2))"
      by blast
    with True show ?thesis by (simp add: halvings_step)
  next
    case False
    with "1.prems" show ?thesis by (simp add: halvings_stop)
  qed
qed

lemma to_double_of_int:
  assumes "\<bar>n\<bar> \<le> 2 ^ 53"
  shows "to_double (of_int n) = Fin (of_int n)"
proof (cases "n = 0")
  case True
  then show ?thesis by (simp add: to_double_def)
next
  case False
  define a :: rat where "a = \<bar>of_int n\<bar>"
  define k where "k = halvings a"
  from False have a1: "1 \<le> a" by (simp add: a_def)
  have a_int: "a = of_int \<bar>n\<bar>" by (simp add: a_def)
  from assms have a53: "a \<le> 2 ^ 53"
    unfolding a_int by (metis of_int_le_iff of_int_numeral of_int_power)
  from halvings_bounds [OF a1] have lo: "2 ^ k \<le> a" and hi: "a < 2 ^ Suc k"
    by (simp_all add: k_def)
  from lo a53 have "(2::rat) ^ k \<le> 2 ^ 53" by simp
  moreover have "(1::rat) < 2" by simp
  ultimately have k53: "k \<le> 53"
    by (simp only: power_increasing_iff)
  have lp: "last_place a = int k - 52"
    using a1 by (simp add: last_place_def k_def)
  have v: "of_int (nearest_even (a / pow2 (last_place a))) * pow2 (last_place a) = a"
  proof (cases "k \<le> 52")
    case True
    then have u: "pow2 (last_place a) = 1 / 2 ^ (52 - k)"
      by (simp add: lp pow2_def nat_diff_distrib')
    have "a / pow2 (last_place a) = a * 2 ^ (52 - k)"
      by (simp add: u)
    also have "\<dots> = of_int (\<bar>n\<bar> * 2 ^ (52 - k))"
      by (simp add: a_int)
    finally have "nearest_even (a / pow2 (last_place a)) = \<bar>n\<bar> * 2 ^ (52 - k)"
      by (simp only: nearest_even_of_int)
    then show ?thesis
      unfolding u by (simp add: a_int)
  next
    case False
    with k53 have k: "k = 53" by simp
    with lo a53 have a: "a = 2 ^ 53" by simp
    have u: "pow2 (last_place a) = 2" by (simp add: lp k pow2_def)
    have "a / pow2 (last_place a) = of_int (2 ^ 52)"
      unfolding u by (simp add: a)
    then have "nearest_even (a / pow2 (last_place a)) = 2 ^ 52"
      by (simp only: nearest_even_of_int)
    then show ?thesis
      unfolding u by (simp add: a)
  qed
  have "a < 2 ^ 1024" using a53 by (rule le_less_trans) simp
  with v False show ?thesis
    by (simp add: to_double_def Let_def a_def [symmetric]) (simp add: a_def abs_if)
qed

text \<open>Integers up to \<open>2\<^sup>5\<^sup>3\<close> in magnitude are doubles: rounding leaves them as they are.\<close>

lemma to_double_numeral:
  "(numeral k :: int) \<le> 2 ^ 53 \<Longrightarrow> to_double (numeral k) = Fin (numeral k)"
  using to_double_of_int [of "numeral k"] by simp

lemma to_double_neg_numeral:
  "(numeral k :: int) \<le> 2 ^ 53 \<Longrightarrow> to_double (- numeral k) = Fin (- numeral k)"
  using to_double_of_int [of "- numeral k"] by simp

lemma to_double_0: "to_double 0 = Fin 0"
  by (simp add: to_double_def)

lemma to_double_1: "to_double 1 = Fin 1"
  using to_double_of_int [of 1] by simp

lemmas to_double_ints = to_double_numeral to_double_neg_numeral to_double_0 to_double_1





lemma or0_not_NaN: "or0 x \<noteq> NaN"
  by (simp add: or0_def)

lemma or0_number: "x \<noteq> NaN \<Longrightarrow> or0 x = x"
  by (simp add: or0_def)


section \<open>Exceptions, loops and the sanitizer\<close>

lemma traverse_Inr_iff:
  "traverse f xs = Inr ys \<longleftrightarrow> list_all2 (\<lambda>x y. f x = Inr y) xs ys"
proof (induction xs arbitrary: ys)
  case Nil
  then show ?case by auto
next
  case (Cons x xs)
  show ?case
  proof (cases "f x")
    case (Inl e)
    then show ?thesis by (auto simp: list_all2_Cons1)
  next
    case (Inr y)
    then show ?thesis
      using Cons.IH by (cases "traverse f xs") (auto simp: list_all2_Cons1)
  qed
qed

lemma traverse_isl_iff:
  "isl (traverse f xs) \<longleftrightarrow> (\<exists>x\<in>set xs. isl (f x))"
proof (induction xs)
  case Nil
  then show ?case by simp
next
  case (Cons x xs)
  then show ?case
    by (cases "f x"; cases "traverse f xs") auto
qed

lemma bind_exn_Inr_iff:
  "bind_exn m f = Inr y \<longleftrightarrow> (\<exists>x. m = Inr x \<and> f x = Inr y)"
  by (cases m) auto

lemma bind_exn_isl_iff:
  "isl (bind_exn m f) \<longleftrightarrow> isl m \<or> (\<exists>x. m = Inr x \<and> isl (f x))"
  by (cases m) auto

lemma num_prop_Inr_iff:
  "num_prop conv ps k = Inr x \<longleftrightarrow> (\<exists>n. Number conv (get ps k) = Inr n \<and> x = or0 n)"
  by (auto simp: num_prop_def bind_exn_Inr_iff)

lemma num_prop_isl_iff:
  "isl (num_prop conv ps k) \<longleftrightarrow> isl (Number conv (get ps k))"
  by (simp add: num_prop_def bind_exn_isl_iff)

lemma sanitize_props_Inr_iff:
  "sanitize_props conv ps r = Inr it \<longleftrightarrow>
     (\<exists>p c f s.
        Number conv (get ps ''price'') = Inr p \<and> Number conv (get ps ''cost'') = Inr c \<and>
        Number conv (get ps ''amazonFees'') = Inr f \<and> Number conv (get ps ''sold'') = Inr s \<and>
        it = \<lparr>item_id = get ps ''id'', name = get ps ''name'', price = or0 p, cost = or0 c,
               amazonFees = or0 f, sold = or0 s, other = r\<rparr>)"
  unfolding sanitize_props_def bind_exn_Inr_iff num_prop_Inr_iff by auto

lemma sanitize_props_isl_iff:
  "isl (sanitize_props conv ps r) \<longleftrightarrow>
     isl (Number conv (get ps ''price'')) \<or> isl (Number conv (get ps ''cost'')) \<or>
     isl (Number conv (get ps ''amazonFees'')) \<or> isl (Number conv (get ps ''sold''))"
  unfolding sanitize_props_def bind_exn_isl_iff num_prop_isl_iff num_prop_Inr_iff
  by (cases "Number conv (get ps ''price'')"; cases "Number conv (get ps ''cost'')";
      cases "Number conv (get ps ''amazonFees'')"; cases "Number conv (get ps ''sold'')") auto

lemma sanitize_props_numeric:
  "sanitize_props conv ps r = Inr it \<Longrightarrow> numeric it"
  by (auto simp: sanitize_props_Inr_iff numeric_def or0_not_NaN)

lemma sanitize_Inr_iff:
  "sanitize conv p = Inr it \<longleftrightarrow>
     (\<exists>ps r. own_props p = Inr (ps, r) \<and> sanitize_props conv ps r = Inr it)"
  by (auto simp: sanitize_def bind_exn_Inr_iff)

lemma sanitize_numeric: "sanitize conv p = Inr it \<Longrightarrow> numeric it"
  by (auto simp: sanitize_Inr_iff dest: sanitize_props_numeric)

lemma import_entry_Inr_iff:
  "import_entry conv env p = Inr it' \<longleftrightarrow>
     (\<exists>it. sanitize conv p = Inr it \<and>
        it' = (if truthy (item_id it) then it else it\<lparr>item_id := Str (new_id env)\<rparr>))"
  by (auto simp: import_entry_def bind_exn_Inr_iff)

lemma import_entry_isl_iff: "isl (import_entry conv env p) \<longleftrightarrow> isl (sanitize conv p)"
  by (simp add: import_entry_def bind_exn_isl_iff)

lemma import_entry_numeric: "import_entry conv env p = Inr it \<Longrightarrow> numeric it"
  by (auto simp: import_entry_Inr_iff numeric_def dest!: sanitize_numeric split: if_splits)

lemma traverse_all:
  "traverse f xs = Inr ys \<Longrightarrow> (\<And>x y. f x = Inr y \<Longrightarrow> P y) \<Longrightarrow> \<forall>y\<in>set ys. P y"
  unfolding traverse_Inr_iff by (induction rule: list_all2_induct) auto

lemma load_body_Inr_iff:
  "load_body conv pr = Inr its \<longleftrightarrow>
     (\<exists>ar xs. pr = Inr (Arr ar xs) \<and> traverse (sanitize conv) xs = Inr its)"
proof (cases pr)
  case (Inl e)
  then show ?thesis by (simp add: load_body_def)
next
  case (Inr v)
  then show ?thesis by (cases v) (simp_all add: load_body_def)
qed

lemma load_numeric: "\<forall>it\<in>set (items (App_constructor conv saved)). numeric it"
proof (cases saved)
  case Absent
  then show ?thesis by (simp add: App_constructor_def init_def)
next
  case Empty_string
  then show ?thesis by (simp add: App_constructor_def init_def)
next
  case (Text pr)
  show ?thesis
  proof (cases "load_body conv pr")
    case (Inl e)
    with Text show ?thesis by (simp add: App_constructor_def init_def)
  next
    case (Inr its)
    then obtain xs where "traverse (sanitize conv) xs = Inr its"
      by (auto simp: load_body_Inr_iff)
    then have "\<forall>it\<in>set its. numeric it"
      by (rule traverse_all) (rule sanitize_numeric)
    with Text Inr show ?thesis by (simp add: App_constructor_def init_def)
  qed
qed

lemma import_body_Some:
  "import_body conv gen pr = Inr (Some its) \<longleftrightarrow>
     (\<exists>ar xs. pr = Inr (Arr ar xs) \<and>
        traverse (\<lambda>(k, p). import_entry conv (gen k) p) (enumerate 0 xs) = Inr its)"
proof (cases pr)
  case (Inl e)
  then show ?thesis by (simp add: import_body_def)
next
  case (Inr v)
  then show ?thesis by (cases v) (auto simp: import_body_def bind_exn_Inr_iff)
qed

lemma import_numeric:
  assumes "\<forall>it\<in>set (items a). numeric it"
  shows "\<forall>it\<in>set (items (uploadJSON_onload conv gen pr a)). numeric it"
proof (cases "import_body conv gen pr")
  case (Inl e)
  with assms show ?thesis by (simp add: uploadJSON_onload_def)
next
  case (Inr r)
  show ?thesis
  proof (cases r)
    case None
    with Inr assms show ?thesis by (simp add: uploadJSON_onload_def)
  next
    case (Some its)
    with Inr obtain xs where
      "traverse (\<lambda>(k, p). import_entry conv (gen k) p) (enumerate 0 xs) = Inr its"
      by (auto simp: import_body_Some)
    then have "\<forall>it\<in>set its. numeric it"
      by (rule traverse_all) (auto dest: import_entry_numeric)
    with Inr Some show ?thesis by (simp add: uploadJSON_onload_def saveLocal_def)
  qed
qed

lemma addOrUpdate_numeric:
  assumes "\<forall>it\<in>set (items a). numeric it"
  shows "\<forall>it\<in>set (items (state_after a (addOrUpdate conv invalid val env a))). numeric it"
proof (cases "addOrUpdate conv invalid val env a")
  case (Inl e)
  with assms show ?thesis by (simp add: state_after_def)
next
  case (Inr a')
  show ?thesis
  proof (cases invalid)
    case True
    with Inr assms show ?thesis by (simp add: addOrUpdate_def state_after_def)
  next
    case False
    with Inr obtain v where v: "sanitize_props conv val (extra_props val) = Inr v"
      and a': "a' = saveLocal
          (if truthy (item_id v)
           then a\<lparr>items := map (\<lambda>i. if strict_eq (item_id i) (item_id v) then v else i) (items a)\<rparr>
           else a\<lparr>items := items a @ [v\<lparr>item_id := Str (new_id env)\<rparr>]\<rparr>)"
      by (auto simp: addOrUpdate_def bind_exn_Inr_iff)
    from v have "numeric v" by (rule sanitize_props_numeric)
    then have "numeric (v\<lparr>item_id := Str (new_id env)\<rparr>)" by (simp add: numeric_def)
    with \<open>numeric v\<close> assms a' Inr show ?thesis
      by (auto simp: state_after_def saveLocal_def)
  qed
qed

lemma remove_numeric:
  "\<forall>it\<in>set (items a). numeric it \<Longrightarrow> \<forall>it\<in>set (items (remove x a)). numeric it"
  by (simp add: remove_def saveLocal_def)

subsection \<open>The import loop\<close>

lemma import_traverse_isl_iff:
  "isl (traverse (\<lambda>(k, p). import_entry conv (gen k) p) (enumerate n xs)) \<longleftrightarrow>
     (\<exists>p\<in>set xs. isl (sanitize conv p))"
proof -
  have "(\<exists>x\<in>set (enumerate n xs). isl (case x of (k, p) \<Rightarrow> import_entry conv (gen k) p)) \<longleftrightarrow>
        (\<exists>p\<in>set xs. isl (sanitize conv p))"
    by (induction xs arbitrary: n) (simp_all add: import_entry_isl_iff)
  then show ?thesis by (simp add: traverse_isl_iff)
qed

lemma import_traverse_Inr:
  assumes "traverse (\<lambda>(k, p). import_entry conv (gen k) p) (enumerate 0 xs) = Inr its"
  shows "length its = length xs"
    and "k < length xs \<Longrightarrow> import_entry conv (gen k) (xs ! k) = Inr (its ! k)"
proof -
  from assms have all2:
    "list_all2 (\<lambda>x y. (case x of (k, p) \<Rightarrow> import_entry conv (gen k) p) = Inr y) (enumerate 0 xs) its"
    by (simp add: traverse_Inr_iff)
  then show len: "length its = length xs"
    by (auto dest: list_all2_lengthD)
  show "import_entry conv (gen k) (xs ! k) = Inr (its ! k)" if "k < length xs"
    using list_all2_nthD [OF all2, of k] that by (simp add: nth_enumerate_eq)
qed

lemma import_body_cases:
  "import_body conv gen pr =
     (case pr of
        Inl e \<Rightarrow> Inl e
      | Inr v \<Rightarrow>
          (case v of
             Arr ar xs \<Rightarrow>
               (case traverse (\<lambda>(k, p). import_entry conv (gen k) p) (enumerate 0 xs) of
                  Inl e \<Rightarrow> Inl e | Inr its \<Rightarrow> Inr (Some its))
           | _ \<Rightarrow> Inr None))"
  by (cases pr) (auto simp: import_body_def split: jsval.splits sum.splits)

lemma sanitize_isl_iff:
  "isl (sanitize conv p) \<longleftrightarrow>
     (case p of
        Obj ob ps \<Rightarrow>
          isl (Number conv (get ps ''price'')) \<or> isl (Number conv (get ps ''cost'')) \<or>
          isl (Number conv (get ps ''amazonFees'')) \<or> isl (Number conv (get ps ''sold''))
      | Arr ar ys \<Rightarrow> False
      | _ \<Rightarrow> True)"
  by (cases p) (simp_all add: sanitize_def sanitize_props_isl_iff get_def)

lemma new_id_clock0: "new_id (clock 0) = ''loyw3v28k3x9q''"
  by (simp add: new_id_def clock_def base36.simps digit36_def)

subsection \<open>Add, update and identifiers\<close>

lemma sanitize_props_id: "sanitize_props conv ps r = Inr v \<Longrightarrow> item_id v = get ps ''id''"
  by (auto simp: sanitize_props_Inr_iff)

lemma addOrUpdate_Inr_iff:
  "addOrUpdate conv invalid val env a = Inr a' \<longleftrightarrow>
     (if invalid then a' = a
      else \<exists>v. sanitize_props conv val (extra_props val) = Inr v \<and>
        a' = saveLocal
          (if truthy (get val ''id'')
           then a\<lparr>items := map (\<lambda>i. if strict_eq (item_id i) (get val ''id'') then v else i) (items a)\<rparr>
           else a\<lparr>items := items a @ [v\<lparr>item_id := Str (new_id env)\<rparr>]\<rparr>))"
proof (cases invalid)
  case True
  then show ?thesis by (auto simp: addOrUpdate_def)
next
  case False
  show ?thesis
  proof (cases "sanitize_props conv val (extra_props val)")
    case (Inl e)
    with False show ?thesis by (simp add: addOrUpdate_def)
  next
    case (Inr v)
    then have "item_id v = get val ''id''" by (rule sanitize_props_id)
    with False Inr show ?thesis by (auto simp: addOrUpdate_def)
  qed
qed

lemma map_unmatched: "\<forall>i\<in>set xs. \<not> P i \<Longrightarrow> map (\<lambda>i. if P i then v else i) xs = xs"
  by (induction xs) simp_all

lemma traverse_nth:
  assumes "traverse f xs = Inr ys"
  shows "length ys = length xs" and "k < length xs \<Longrightarrow> f (xs ! k) = Inr (ys ! k)"
  using assms unfolding traverse_Inr_iff list_all2_conv_all_nth by auto

lemma traverse_total:
  assumes "\<forall>x\<in>set xs. \<not> isl (f x)"
  obtains ys where "traverse f xs = Inr ys"
proof -
  from assms have "\<not> isl (traverse f xs)" by (simp add: traverse_isl_iff)
  then show ?thesis using that by (cases "traverse f xs") auto
qed

lemma sanitize_id:
  "sanitize conv p = Inr it \<Longrightarrow> \<exists>ps r. own_props p = Inr (ps, r) \<and> item_id it = get ps ''id''"
  by (auto simp: sanitize_Inr_iff dest: sanitize_props_id)

lemma import_entry_id:
  assumes "import_entry conv env p = Inr it"
  shows "\<exists>ps r. own_props p = Inr (ps, r) \<and>
            item_id it = (if truthy (get ps ''id'') then get ps ''id'' else Str (new_id env))"
proof -
  from assms obtain it0 where s: "sanitize conv p = Inr it0"
    and it: "it = (if truthy (item_id it0) then it0 else it0\<lparr>item_id := Str (new_id env)\<rparr>)"
    by (auto simp: import_entry_Inr_iff)
  from sanitize_id [OF s] obtain ps r where "own_props p = Inr (ps, r)" "item_id it0 = get ps ''id''"
    by blast
  with it show ?thesis by auto
qed

lemma import_ids:
  assumes "\<forall>p\<in>set xs. \<not> isl (sanitize conv p)"
  shows "length (items (uploadJSON_onload conv gen (Inr (Arr ar xs)) a)) = length xs \<and>
     (\<forall>k<length xs. \<exists>ps r. own_props (xs ! k) = Inr (ps, r) \<and>
        item_id (items (uploadJSON_onload conv gen (Inr (Arr ar xs)) a) ! k) =
          (if truthy (get ps ''id'') then get ps ''id'' else Str (new_id (gen k))))"
proof -
  from assms have "\<not> isl (traverse (\<lambda>(k, p). import_entry conv (gen k) p) (enumerate 0 xs))"
    by (simp add: import_traverse_isl_iff)
  then obtain its where
    its: "traverse (\<lambda>(k, p). import_entry conv (gen k) p) (enumerate 0 xs) = Inr its"
    by (cases "traverse (\<lambda>(k, p). import_entry conv (gen k) p) (enumerate 0 xs)") auto
  then have res: "items (uploadJSON_onload conv gen (Inr (Arr ar xs)) a) = its"
    by (simp add: uploadJSON_onload_def import_body_cases saveLocal_def)
  from import_traverse_Inr [OF its] import_entry_id show ?thesis
    unfolding res by blast
qed

lemma load_ids:
  assumes "\<forall>p\<in>set xs. \<not> isl (sanitize conv p)"
  shows "length (items (App_constructor conv (Text (Inr (Arr ar xs))))) = length xs \<and>
     (\<forall>k<length xs. \<exists>ps r. own_props (xs ! k) = Inr (ps, r) \<and>
        item_id (items (App_constructor conv (Text (Inr (Arr ar xs)))) ! k) = get ps ''id'')"
proof -
  from assms obtain its where its: "traverse (sanitize conv) xs = Inr its"
    by (rule traverse_total)
  then have "load_body conv (Inr (Arr ar xs)) = Inr its"
    by (simp add: load_body_Inr_iff)
  then have res: "items (App_constructor conv (Text (Inr (Arr ar xs)))) = its"
    by (simp add: App_constructor_def)
  from traverse_nth [OF its] sanitize_id show ?thesis
    unfolding res by blast
qed

lemma strict_eq_imp_eq: "strict_eq a b \<Longrightarrow> a = b"
  by (simp add: strict_eq_def)

lemma update_ids:
  assumes "truthy (get val ''id'')"
  shows "map item_id (items (state_after a (addOrUpdate conv invalid val env a))) =
         map item_id (items a)"
proof (cases "addOrUpdate conv invalid val env a")
  case (Inl e)
  then show ?thesis by (simp add: state_after_def)
next
  case (Inr a')
  show ?thesis
  proof (cases invalid)
    case True
    then show ?thesis by (simp add: addOrUpdate_def state_after_def)
  next
    case False
    with Inr assms obtain v where v: "sanitize_props conv val (extra_props val) = Inr v"
      and a': "a' = saveLocal (a\<lparr>items :=
         map (\<lambda>i. if strict_eq (item_id i) (get val ''id'') then v else i) (items a)\<rparr>)"
      by (auto simp: addOrUpdate_Inr_iff)
    from v have "item_id v = get val ''id''" by (rule sanitize_props_id)
    then have "map item_id (map (\<lambda>i. if strict_eq (item_id i) (get val ''id'') then v else i) (items a)) =
        map item_id (items a)"
      by (auto dest: strict_eq_imp_eq)
    with Inr a' show ?thesis by (simp add: state_after_def saveLocal_def)
  qed
qed

lemma add_appends:
  assumes "\<not> invalid" "\<not> truthy (get val ''id'')" "addOrUpdate conv invalid val env a = Inr a'"
  shows "\<exists>v. items a' = items a @ [v] \<and> item_id v = Str (new_id env)"
  using assms by (auto simp: addOrUpdate_Inr_iff saveLocal_def)

subsection \<open>Rows of the CSV text\<close>

lemma traverse_map:
  "(\<And>x. x \<in> set xs \<Longrightarrow> f x = Inr (g x)) \<Longrightarrow> traverse f xs = Inr (map g xs)"
  by (induction xs) simp_all

lemma csv_row_strings:
  assumes "\<And>c. c \<in> set r \<Longrightarrow> String digits obj_string c = Inr (str c)"
  shows "csv_row digits obj_string r = Inr (join '','' (map (\<lambda>c. quoted (str c)) r))"
proof -
  have "traverse (\<lambda>cell. bind_exn (String digits obj_string cell) (\<lambda>s. Inr (quoted s))) r =
        Inr (map (\<lambda>c. quoted (str c)) r)"
    by (rule traverse_map) (simp add: assms)
  then show ?thesis by (simp add: csv_row_def)
qed

lemma undouble_doubled:
  "undouble (concat (map (\<lambda>c. if c = CHR 0x22 then [CHR 0x22, CHR 0x22] else [c]) s)) = Some s"
proof (induction s)
  case Nil
  then show ?case by simp
next
  case (Cons c s)
  show ?case
  proof (cases "c = CHR 0x22")
    case True
    with Cons show ?thesis by simp
  next
    case False
    with Cons show ?thesis
      by (cases "concat (map (\<lambda>c. if c = CHR 0x22 then [CHR 0x22, CHR 0x22] else [c]) s)") auto
  qed
qed

lemma unquoted_quoted: "unquoted (quoted s) = Some s"
  by (simp add: unquoted_def quoted_def undouble_doubled)

lemma join_separated: "join sep xs = separated sep xs"
  by (induction sep xs rule: join.induct) (simp_all add: separated_def)

lemma exportCSV_rows:
  assumes "\<And>it. it \<in> set its \<Longrightarrow> String digits obj_string (name it) = Inr (nm it)"
  shows "exportCSV digits obj_string its =
      Inr (join [CHR 0x0A] (map (\<lambda>r. join '','' (map quoted r))
        ([[''name'', ''price'', ''cost'', ''amazonFees'', ''sold'', ''profit'']] @
         map (\<lambda>it. [nm it, Number_toString digits (price it), Number_toString digits (cost it),
                    Number_toString digits (amazonFees it), Number_toString digits (sold it),
                    Number_toString digits (perItemProfit it)]) its @
         [[''TOTALS'', Number_toString digits (totalRevenue its),
           Number_toString digits (totalCost its), Number_toString digits (totalFees its),
           Number_toString digits (totalSold its), Number_toString digits (totalProfit its)]])))"
proof -
  define str where "str c = projr (String digits obj_string c)" for c
  have str_Num: "str (Num n) = Number_toString digits n" for n
    by (simp add: str_def)
  have str_Str: "str (Str s) = s" for s
    by (simp add: str_def)
  have str_name: "str (name it) = nm it" if "it \<in> set its" for it
    using assms [OF that] by (simp add: str_def)
  have cells: "String digits obj_string c = Inr (str c)" if "r \<in> set (allRows its)" "c \<in> set r" for r c
    using that assms by (auto simp: allRows_def str_def)
  have "traverse (csv_row digits obj_string) (allRows its) =
        Inr (map (\<lambda>r. join '','' (map (\<lambda>c. quoted (str c)) r)) (allRows its))"
    by (rule traverse_map) (rule csv_row_strings, rule cells)
  moreover have "map (\<lambda>r. join '','' (map (\<lambda>c. quoted (str c)) r)) (allRows its) =
      map (\<lambda>r. join '','' (map quoted r))
        ([[''name'', ''price'', ''cost'', ''amazonFees'', ''sold'', ''profit'']] @
         map (\<lambda>it. [nm it, Number_toString digits (price it), Number_toString digits (cost it),
                    Number_toString digits (amazonFees it), Number_toString digits (sold it),
                    Number_toString digits (perItemProfit it)]) its @
         [[''TOTALS'', Number_toString digits (totalRevenue its),
           Number_toString digits (totalCost its), Number_toString digits (totalFees its),
           Number_toString digits (totalSold its), Number_toString digits (totalProfit its)]])"
    by (simp add: allRows_def str_Num str_Str str_name)
  ultimately show ?thesis by (simp add: exportCSV_def)
qed

lemma decimal_values:
  "decimal 1 = ''1''" "decimal 2 = ''2''" "decimal 3 = ''3''" "decimal 4 = ''4''" "decimal 5 = ''5''"
  "decimal 8 = ''8''" "decimal 10 = ''10''" "decimal 15 = ''15''" "decimal 20 = ''20''"
  "decimal 22 = ''22''" "decimal 23 = ''23''" "decimal 50 = ''50''" "decimal (Suc 0) = ''1''"
  "decimal 12 = ''12''" "decimal 30 = ''30''"
  by (simp_all add: decimal.simps)

subsection \<open>Entries read back from JSON\<close>

lemma map_of_reparsed_None:
  "map_of ps k = None \<Longrightarrow>
   map_of (map (\<lambda>(k, v). (k, reparse alloc v)) (filter (\<lambda>(k, v). v \<noteq> Undefined) ps)) k = None"
  by (induction ps) (auto split: if_splits)

lemma finite_num_iff: "finite_num n \<longleftrightarrow> (\<exists>r. n = Fin r)"
  by (cases n) simp_all

lemma reimport_entry:
  assumes "survives_json alloc it"
  shows "\<exists>it'. import_entry conv env (reparse alloc (item_object it)) = Inr it' \<and> tuple it' = tuple it"
proof -
  from assms obtain ps where ps: "other it = Props ps"
    and free: "map_of ps ''id'' = None" "map_of ps ''name'' = None" "map_of ps ''price'' = None"
      "map_of ps ''cost'' = None" "map_of ps ''amazonFees'' = None" "map_of ps ''sold'' = None"
    by (auto simp: survives_json_def split: remainder.splits)
  from assms obtain p c f s where nums: "price it = Fin p" "cost it = Fin c"
      "amazonFees it = Fin f" "sold it = Fin s"
    by (auto simp: survives_json_def finite_num_iff)
  from assms have ident: "truthy (item_id it)" "reparse alloc (item_id it) = item_id it"
      "item_id it \<noteq> Undefined"
    by (auto simp: survives_json_def)
  from assms have nm: "name it = Undefined \<or> reparse alloc (name it) = name it"
    by (simp add: survives_json_def)
  note rest = free [THEN map_of_reparsed_None]
  show ?thesis
  proof (cases "name it = Undefined")
    case True
    then show ?thesis
      using ps nums ident rest
      by (simp add: import_entry_def sanitize_def sanitize_props_def num_prop_def get_def
          item_object_def or0_def tuple_def)
  next
    case False
    with nm have "reparse alloc (name it) = name it" by simp
    with False show ?thesis
      using ps nums ident rest
      by (simp add: import_entry_def sanitize_def sanitize_props_def num_prop_def get_def
          item_object_def or0_def tuple_def)
  qed
qed

lemma reimport_traverse:
  assumes "\<forall>it\<in>set its. survives_json alloc it"
  shows "\<exists>its'. traverse (\<lambda>(k, p). import_entry conv (gen k) p)
             (enumerate n (map (\<lambda>it. reparse alloc (item_object it)) its)) = Inr its' \<and>
           map tuple its' = map tuple its"
  using assms
proof (induction its arbitrary: n)
  case Nil
  then show ?case by simp
next
  case (Cons it its)
  from Cons.prems have "survives_json alloc it" by simp
  from reimport_entry [OF this] obtain it' where
    it': "import_entry conv (gen n) (reparse alloc (item_object it)) = Inr it'" "tuple it' = tuple it"
    by blast
  from Cons.IH [of "Suc n"] Cons.prems obtain its' where
    "traverse (\<lambda>(k, p). import_entry conv (gen k) p)
       (enumerate (Suc n) (map (\<lambda>it. reparse alloc (item_object it)) its)) = Inr its'"
    "map tuple its' = map tuple its"
    by auto
  with it' show ?case by simp
qed

section \<open>Aggregates\<close>



text \<open>
  Claim C2. For every item that holds numbers in its four numeric properties,
  \<open>perItemProfit\<close> is \<open>(price - cost - amazonFees) * sold\<close>.
\<close>

theorem perItemProfit_formula:
  "numeric it \<Longrightarrow> perItemProfit it = (price it - cost it - amazonFees it) * sold it"
  by (simp add: perItemProfit_def numeric_def or0_number)

theorem perItemProfit_formula_witness:
  "perItemProfit \<lparr>item_id = Str ''a'', name = Str ''Widget'', price = Fin 10, cost = Fin 4,
       amazonFees = Fin 1, sold = Fin 3, other = Props []\<rparr> = (Fin 10 - Fin 4 - Fin 1) * Fin 3"
  using perItemProfit_formula [of "\<lparr>item_id = Str ''a'', name = Str ''Widget'', price = Fin 10,
       cost = Fin 4, amazonFees = Fin 1, sold = Fin 3, other = Props []\<rparr>"]
  by (simp add: numeric_def)

section \<open>The sanitizer's invariant\<close>

text \<open>
  Claim C3, as the code has it. After loading, after a JSON import, after add or update
  and after remove, each of \<open>price\<close>, \<open>cost\<close>, \<open>amazonFees\<close> and \<open>sold\<close> of every item of the
  ledger is a number other than \<^verbatim>\<open>NaN\<close>. A property that \<^verbatim>\<open>Number\<close> converts to \<^verbatim>\<open>NaN\<close>
  (a missing one, a string that is no numeric literal) is stored as 0; any other is stored
  as \<^verbatim>\<open>Number\<close> converts it, whatever its sign or size.
\<close>

theorem sanitized_fields_are_numbers:
  "(\<forall>it\<in>set (items (App_constructor conv saved)). numeric it) \<and>
   ((\<forall>it\<in>set (items a). numeric it) \<longrightarrow>
      (\<forall>it\<in>set (items (uploadJSON_onload conv gen pr a)). numeric it) \<and>
      (\<forall>it\<in>set (items (state_after a (addOrUpdate conv invalid val env a))). numeric it) \<and>
      (\<forall>it\<in>set (items (remove x a)). numeric it)) \<and>
   (sanitize_props conv ps r = Inr it \<longrightarrow>
      (\<forall>n. Number conv (get ps ''price'') = Inr n \<longrightarrow> price it = (if n = NaN then Fin 0 else n)) \<and>
      (\<forall>n. Number conv (get ps ''cost'') = Inr n \<longrightarrow> cost it = (if n = NaN then Fin 0 else n)) \<and>
      (\<forall>n. Number conv (get ps ''amazonFees'') = Inr n \<longrightarrow>
         amazonFees it = (if n = NaN then Fin 0 else n)) \<and>
      (\<forall>n. Number conv (get ps ''sold'') = Inr n \<longrightarrow> sold it = (if n = NaN then Fin 0 else n)))"
proof -
  have stored: "(\<forall>it\<in>set (items (uploadJSON_onload conv gen pr a)). numeric it) \<and>
      (\<forall>it\<in>set (items (state_after a (addOrUpdate conv invalid val env a))). numeric it) \<and>
      (\<forall>it\<in>set (items (remove x a)). numeric it)"
    if "\<forall>it\<in>set (items a). numeric it"
    using that import_numeric addOrUpdate_numeric remove_numeric by blast
  have fields: "(\<forall>n. Number conv (get ps ''price'') = Inr n \<longrightarrow> price it = (if n = NaN then Fin 0 else n)) \<and>
      (\<forall>n. Number conv (get ps ''cost'') = Inr n \<longrightarrow> cost it = (if n = NaN then Fin 0 else n)) \<and>
      (\<forall>n. Number conv (get ps ''amazonFees'') = Inr n \<longrightarrow>
         amazonFees it = (if n = NaN then Fin 0 else n)) \<and>
      (\<forall>n. Number conv (get ps ''sold'') = Inr n \<longrightarrow> sold it = (if n = NaN then Fin 0 else n))"
    if "sanitize_props conv ps r = Inr it"
    using that by (auto simp: sanitize_props_Inr_iff or0_def)
  from load_numeric stored fields show ?thesis by blast
qed

theorem sanitized_fields_are_numbers_witness:
  "list_all numeric (items (App_constructor conv10 (Text (Inr (Arr 1 [Obj 2 [(''price'', Str ''x'')]]))))) \<and>
   list_all numeric (items (uploadJSON_onload conv10 clock (Inr (Arr 1 [Obj 2 [(''price'', Str ''10'')]])) init)) \<and>
   sanitize_props conv10 [(''price'', Str ''x''), (''cost'', Num (Fin (- 5))), (''sold'', Bool True)] (Props []) =
     Inr \<lparr>item_id = Undefined, name = Undefined, price = Fin 0, cost = Fin (- 5), amazonFees = Fin 0,
          sold = Fin 1, other = Props []\<rparr>"
  using sanitized_fields_are_numbers [where conv = conv10
      and saved = "Text (Inr (Arr 1 [Obj 2 [(''price'', Str ''x'')]]))" and a = init and gen = clock
      and pr = "Inr (Arr 1 [Obj 2 [(''price'', Str ''10'')]])" and invalid = True and val = "[]"
      and env = "clock 0"
      and x = "\<lparr>item_id = Undefined, name = Undefined, price = Fin 0, cost = Fin 0,
          amazonFees = Fin 0, sold = Fin 0, other = Props []\<rparr>"
      and ps = "[(''price'', Str ''x''), (''cost'', Num (Fin (- 5))), (''sold'', Bool True)]"
      and r = "Props []"
      and it = "\<lparr>item_id = Undefined, name = Undefined, price = Fin 0, cost = Fin (- 5),
          amazonFees = Fin 0, sold = Fin 1, other = Props []\<rparr>"]
  by (simp add: list_all_iff init_def sanitize_props_def num_prop_def get_def conv10_def or0_def)

text \<open>
  The claim as the specification states it (every sanitized field finite and not
  negative) fails on the file \<^verbatim>\<open>[{"id":"a","name":"Widget","price":-5,"cost":1e999}]\<close>:
  \<^verbatim>\<open>-5 || 0\<close> is \<^verbatim>\<open>-5\<close> and \<^verbatim>\<open>Infinity || 0\<close> is \<^verbatim>\<open>Infinity\<close>.
\<close>

theorem negative_and_infinite_pass_the_sanitizer:
  "items (uploadJSON_onload conv10 clock
      (Inr (Arr 1 [Obj 2 [(''id'', Str ''a''), (''name'', Str ''Widget''),
                      (''price'', Num (Fin (- 5))), (''cost'', Num PInf)]])) init) =
     [\<lparr>item_id = Str ''a'', name = Str ''Widget'', price = Fin (- 5), cost = PInf,
        amazonFees = Fin 0, sold = Fin 0, other = Props []\<rparr>] \<and>
   \<not> finite_nonneg (Fin (- 5)) \<and> \<not> finite_nonneg PInf"
  by (simp add: uploadJSON_onload_def import_body_def import_entry_def sanitize_def
      sanitize_props_def num_prop_def get_def or0_def extra_props_def saveLocal_def init_def)

section \<open>JSON import\<close>

text \<open>
  Claim C4, as the code has it. The import leaves the ledger and the storage slot as they
  were and shows a message in three cases: the file is not valid JSON (\<^verbatim>\<open>Invalid JSON file\<close>);
  its value is not an array (\<^verbatim>\<open>Uploaded JSON must be an array of items\<close>); or its value is an
  array one of whose entries cannot be sanitized, because the entry is \<^verbatim>\<open>null\<close> or a number,
  string or boolean, or because \<^verbatim>\<open>Number\<close> throws on one of its four properties (the
  exception is caught by the same handler: \<^verbatim>\<open>Invalid JSON file\<close>). In every other case each
  entry is sanitized, an entry whose \<^verbatim>\<open>id\<close> is falsy gets a generated one, the result
  replaces the collection, and it is written to the storage slot.
\<close>

theorem import_outcomes:
  "(pr = Inl e \<longrightarrow>
      uploadJSON_onload conv gen pr a = a\<lparr>alerts := alerts a @ [''Invalid JSON file'']\<rparr>) \<and>
   (pr = Inr v \<and> (\<forall>ar xs. v \<noteq> Arr ar xs) \<longrightarrow>
      uploadJSON_onload conv gen pr a =
        a\<lparr>alerts := alerts a @ [''Uploaded JSON must be an array of items'']\<rparr>) \<and>
   (pr = Inr (Arr ar xs) \<and> (\<exists>p\<in>set xs. isl (sanitize conv p)) \<longrightarrow>
      uploadJSON_onload conv gen pr a = a\<lparr>alerts := alerts a @ [''Invalid JSON file'']\<rparr>) \<and>
   (pr = Inr (Arr ar xs) \<and> (\<forall>p\<in>set xs. \<not> isl (sanitize conv p)) \<longrightarrow>
      (\<exists>its.
         uploadJSON_onload conv gen pr a =
           a\<lparr>items := its, stored := Some its, console := console a @ [''Uploading items'']\<rparr> \<and>
         length its = length xs \<and>
         (\<forall>k<length xs. \<exists>it.
            sanitize conv (xs ! k) = Inr it \<and>
            its ! k = (if truthy (item_id it) then it else it\<lparr>item_id := Str (new_id (gen k))\<rparr>)))) \<and>
   (isl (sanitize conv p) \<longleftrightarrow>
      (case p of
         Obj ob ps \<Rightarrow>
           isl (Number conv (get ps ''price'')) \<or> isl (Number conv (get ps ''cost'')) \<or>
           isl (Number conv (get ps ''amazonFees'')) \<or> isl (Number conv (get ps ''sold''))
       | Arr ar ys \<Rightarrow> False
       | _ \<Rightarrow> True))"
proof -
  have invalid: "uploadJSON_onload conv gen pr a = a\<lparr>alerts := alerts a @ [''Invalid JSON file'']\<rparr>"
    if "pr = Inl e"
    using that by (simp add: uploadJSON_onload_def import_body_cases)
  have no_array: "uploadJSON_onload conv gen pr a =
        a\<lparr>alerts := alerts a @ [''Uploaded JSON must be an array of items'']\<rparr>"
    if "pr = Inr v \<and> (\<forall>ar xs. v \<noteq> Arr ar xs)"
    using that by (cases v) (simp_all add: uploadJSON_onload_def import_body_cases)
  have bad_entry: "uploadJSON_onload conv gen pr a = a\<lparr>alerts := alerts a @ [''Invalid JSON file'']\<rparr>"
    if "pr = Inr (Arr ar xs) \<and> (\<exists>p\<in>set xs. isl (sanitize conv p))"
  proof -
    from that have "isl (traverse (\<lambda>(k, p). import_entry conv (gen k) p) (enumerate 0 xs))"
      by (simp add: import_traverse_isl_iff)
    then obtain e' where "traverse (\<lambda>(k, p). import_entry conv (gen k) p) (enumerate 0 xs) = Inl e'"
      by (auto simp: isl_def)
    with that show ?thesis by (simp add: uploadJSON_onload_def import_body_cases)
  qed
  have replaced: "\<exists>its.
         uploadJSON_onload conv gen pr a =
           a\<lparr>items := its, stored := Some its, console := console a @ [''Uploading items'']\<rparr> \<and>
         length its = length xs \<and>
         (\<forall>k<length xs. \<exists>it.
            sanitize conv (xs ! k) = Inr it \<and>
            its ! k = (if truthy (item_id it) then it else it\<lparr>item_id := Str (new_id (gen k))\<rparr>))"
    if "pr = Inr (Arr ar xs) \<and> (\<forall>p\<in>set xs. \<not> isl (sanitize conv p))"
  proof -
    from that have "\<not> isl (traverse (\<lambda>(k, p). import_entry conv (gen k) p) (enumerate 0 xs))"
      by (simp add: import_traverse_isl_iff)
    then obtain its where
      its: "traverse (\<lambda>(k, p). import_entry conv (gen k) p) (enumerate 0 xs) = Inr its"
      by (cases "traverse (\<lambda>(k, p). import_entry conv (gen k) p) (enumerate 0 xs)") auto
    with that have "uploadJSON_onload conv gen pr a =
        a\<lparr>items := its, stored := Some its, console := console a @ [''Uploading items'']\<rparr>"
      by (simp add: uploadJSON_onload_def import_body_cases saveLocal_def)
    moreover have "length its = length xs"
      using its by (rule import_traverse_Inr)
    moreover have "\<forall>k<length xs. \<exists>it.
            sanitize conv (xs ! k) = Inr it \<and>
            its ! k = (if truthy (item_id it) then it else it\<lparr>item_id := Str (new_id (gen k))\<rparr>)"
      using import_traverse_Inr(2) [OF its] by (simp add: import_entry_Inr_iff)
    ultimately show ?thesis by blast
  qed
  from invalid no_array bad_entry replaced sanitize_isl_iff [of conv p] show ?thesis
    by blast
qed

theorem import_outcomes_witness:
  "uploadJSON_onload conv10 clock (Inl SyntaxError) init = init\<lparr>alerts := [''Invalid JSON file'']\<rparr> \<and>
   uploadJSON_onload conv10 clock (Inr (Obj 2 [(''a'', Num (Fin 1))])) init =
     init\<lparr>alerts := [''Uploaded JSON must be an array of items'']\<rparr> \<and>
   uploadJSON_onload conv10 clock (Inr (Arr 1 [Obj 2 [], Num (Fin 1)])) init =
     init\<lparr>alerts := [''Invalid JSON file'']\<rparr> \<and>
   items (uploadJSON_onload conv10 clock
     (Inr (Arr 1 [Obj 2 [(''name'', Str ''Widget''), (''price'', Str ''10''), (''cost'', Str ''x''),
                     (''sold'', Num (Fin 5))]])) init) =
     [\<lparr>item_id = Str ''loyw3v28k3x9q'', name = Str ''Widget'', price = Fin 10, cost = Fin 0,
        amazonFees = Fin 0, sold = Fin 5, other = Props []\<rparr>]"
  using import_outcomes [where pr = "Inl SyntaxError" and e = SyntaxError and v = Null and xs = "[]"
      and ar = 1 and p = Null and conv = conv10 and gen = clock and a = init]
    import_outcomes [where pr = "Inr (Obj 2 [(''a'', Num (Fin 1))])" and e = SyntaxError
      and v = "Obj 2 [(''a'', Num (Fin 1))]" and xs = "[]" and ar = 1 and p = Null
      and conv = conv10 and gen = clock and a = init]
    import_outcomes [where pr = "Inr (Arr 1 [Obj 2 [], Num (Fin 1)])" and e = SyntaxError and v = Null
      and xs = "[Obj 2 [], Num (Fin 1)]" and ar = 1 and p = "Num (Fin 1)"
      and conv = conv10 and gen = clock and a = init]
    import_outcomes [where pr = "Inr (Arr 1 [Obj 2 [(''name'', Str ''Widget''), (''price'', Str ''10''),
        (''cost'', Str ''x''), (''sold'', Num (Fin 5))]])" and e = SyntaxError and v = Null
      and xs = "[Obj 2 [(''name'', Str ''Widget''), (''price'', Str ''10''),
        (''cost'', Str ''x''), (''sold'', Num (Fin 5))]]" and ar = 1 and p = "Arr 1 []"
      and conv = conv10 and gen = clock and a = init]
  by (auto simp add: init_def sanitize_def sanitize_props_def num_prop_def get_def or0_def
      extra_props_def conv10_def new_id_clock0 length_Suc_conv)

text \<open>
  The claim as the specification states it (rejection exactly when the file is not valid
  JSON or its value is not an array) fails on the file \<^verbatim>\<open>[null]\<close>, a valid JSON array:
  reading \<^verbatim>\<open>p.price\<close> of \<^verbatim>\<open>null\<close> throws, and the ledger stays as it was.
\<close>

theorem array_with_null_entry_is_rejected:
  "uploadJSON_onload conv10 clock (Inr (Arr 1 [Null]))
     \<lparr>items = [\<lparr>item_id = Str ''a'', name = Str ''Widget'', price = Fin 10, cost = Fin 4,
                 amazonFees = Fin 1, sold = Fin 3, other = Props []\<rparr>],
      stored = None, alerts = [], console = []\<rparr> =
   \<lparr>items = [\<lparr>item_id = Str ''a'', name = Str ''Widget'', price = Fin 10, cost = Fin 4,
               amazonFees = Fin 1, sold = Fin 3, other = Props []\<rparr>],
    stored = None, alerts = [''Invalid JSON file''], console = []\<rparr>"
  by (simp add: uploadJSON_onload_def import_body_def import_entry_def sanitize_def)

section \<open>Update, load and remove\<close>

text \<open>
  Claim C5. When the form's value carries a truthy (non-empty) \<^verbatim>\<open>id\<close> that is \<^verbatim>\<open>===\<close> to the
  \<^verbatim>\<open>id\<close> of no entry, the collection after \<^verbatim>\<open>addOrUpdate\<close> is the collection before it,
  entry for entry, whether the call returns or throws.
\<close>

theorem update_unknown_id_is_noop:
  assumes "truthy (get val ''id'')"
    and "\<forall>i\<in>set (items a). \<not> strict_eq (item_id i) (get val ''id'')"
  shows "items (state_after a (addOrUpdate conv invalid val env a)) = items a"
proof (cases "addOrUpdate conv invalid val env a")
  case (Inl e)
  then show ?thesis by (simp add: state_after_def)
next
  case (Inr a')
  show ?thesis
  proof (cases invalid)
    case True
    then show ?thesis by (simp add: addOrUpdate_def state_after_def)
  next
    case False
    with Inr assms(1) obtain v where
      "a' = saveLocal (a\<lparr>items :=
         map (\<lambda>i. if strict_eq (item_id i) (get val ''id'') then v else i) (items a)\<rparr>)"
      by (auto simp: addOrUpdate_Inr_iff)
    with Inr assms(2) show ?thesis
      by (simp add: state_after_def saveLocal_def map_unmatched)
  qed
qed

theorem update_unknown_id_is_noop_witness:
  "addOrUpdate conv10 False
     [(''id'', Str ''zz''), (''name'', Str ''Gadget''), (''price'', Num (Fin 20)),
      (''cost'', Num (Fin 10)), (''amazonFees'', Num (Fin 2)), (''sold'', Num (Fin 1))]
     (clock 0)
     \<lparr>items = [\<lparr>item_id = Str ''a'', name = Str ''Widget'', price = Fin 10, cost = Fin 4,
                 amazonFees = Fin 1, sold = Fin 3, other = Props []\<rparr>],
      stored = None, alerts = [], console = []\<rparr> =
   Inr \<lparr>items = [\<lparr>item_id = Str ''a'', name = Str ''Widget'', price = Fin 10, cost = Fin 4,
                    amazonFees = Fin 1, sold = Fin 3, other = Props []\<rparr>],
        stored = Some [\<lparr>item_id = Str ''a'', name = Str ''Widget'', price = Fin 10, cost = Fin 4,
                    amazonFees = Fin 1, sold = Fin 3, other = Props []\<rparr>],
        alerts = [], console = []\<rparr>"
  using update_unknown_id_is_noop [where conv = conv10 and invalid = False
      and val = "[(''id'', Str ''zz''), (''name'', Str ''Gadget''), (''price'', Num (Fin 20)),
        (''cost'', Num (Fin 10)), (''amazonFees'', Num (Fin 2)), (''sold'', Num (Fin 1))]"
      and env = "clock 0"
      and a = "\<lparr>items = [\<lparr>item_id = Str ''a'', name = Str ''Widget'', price = Fin 10, cost = Fin 4,
                 amazonFees = Fin 1, sold = Fin 3, other = Props []\<rparr>],
            stored = None, alerts = [], console = []\<rparr>"]
  by (simp add: addOrUpdate_def sanitize_props_def num_prop_def get_def or0_def extra_props_def
      strict_eq_def saveLocal_def state_after_def)

text \<open>
  Claim C6, as the code has it. The constructor has three outcomes and no other: the
  initial state, with the empty ledger; the initial state with the warning
  \<^verbatim>\<open>Failed to parse saved items\<close> on the console; the ledger read from a stored array whose
  entries were all sanitized. When the slot is absent, or holds the empty string, the
  ledger is empty and nothing is logged. When the slot holds a text that is not empty and
  that does not parse, or parses to a value that is not an array, the exception is caught,
  the warning is logged and the ledger is empty.
\<close>

theorem load_never_fails:
  "(saved = Absent \<or> saved = Empty_string \<longrightarrow> App_constructor conv saved = init) \<and>
   (saved = Text pr \<and> (isl pr \<or> (\<exists>v. pr = Inr v \<and> (\<forall>ar xs. v \<noteq> Arr ar xs))) \<longrightarrow>
      App_constructor conv saved = init\<lparr>console := [''Failed to parse saved items'']\<rparr>) \<and>
   (App_constructor conv saved = init \<or>
    App_constructor conv saved = init\<lparr>console := [''Failed to parse saved items'']\<rparr> \<or>
    (\<exists>ar xs its. saved = Text (Inr (Arr ar xs)) \<and> traverse (sanitize conv) xs = Inr its \<and>
       App_constructor conv saved = init\<lparr>items := its\<rparr>)) \<and>
   items init = [] \<and> console init = [] \<and>
   items (init\<lparr>console := [''Failed to parse saved items'']\<rparr>) = []"
proof -
  have absent: "App_constructor conv saved = init" if "saved = Absent \<or> saved = Empty_string"
    using that by (auto simp: App_constructor_def)
  have unparsable: "App_constructor conv saved = init\<lparr>console := [''Failed to parse saved items'']\<rparr>"
    if "saved = Text pr \<and> (isl pr \<or> (\<exists>v. pr = Inr v \<and> (\<forall>ar xs. v \<noteq> Arr ar xs)))"
  proof -
    from that have "\<not> (\<exists>ar xs. pr = Inr (Arr ar xs))" by auto
    then have "\<forall>its. load_body conv pr \<noteq> Inr its"
      by (simp add: load_body_Inr_iff)
    then obtain e where "load_body conv pr = Inl e"
      by (cases "load_body conv pr") auto
    with that show ?thesis by (simp add: App_constructor_def)
  qed
  have outcomes: "App_constructor conv saved = init \<or>
    App_constructor conv saved = init\<lparr>console := [''Failed to parse saved items'']\<rparr> \<or>
    (\<exists>ar xs its. saved = Text (Inr (Arr ar xs)) \<and> traverse (sanitize conv) xs = Inr its \<and>
       App_constructor conv saved = init\<lparr>items := its\<rparr>)"
  proof (cases saved)
    case Absent
    then show ?thesis by (simp add: App_constructor_def)
  next
    case Empty_string
    then show ?thesis by (simp add: App_constructor_def)
  next
    case (Text r)
    show ?thesis
    proof (cases "load_body conv r")
      case (Inl e)
      with Text show ?thesis by (simp add: App_constructor_def)
    next
      case (Inr its)
      then obtain ar xs where "r = Inr (Arr ar xs)" and "traverse (sanitize conv) xs = Inr its"
        by (auto simp: load_body_Inr_iff)
      with Text Inr show ?thesis by (simp add: App_constructor_def)
    qed
  qed
  from absent unparsable outcomes show ?thesis
    by (simp add: init_def)
qed

theorem load_never_fails_witness:
  "App_constructor conv10 Absent = init \<and>
   App_constructor conv10 (Text (Inl SyntaxError)) =
     init\<lparr>console := [''Failed to parse saved items'']\<rparr> \<and>
   App_constructor conv10 (Text (Inr (Obj 2 [(''a'', Num (Fin 1))]))) =
     init\<lparr>console := [''Failed to parse saved items'']\<rparr>"
  using load_never_fails [where saved = Absent and pr = "Inl SyntaxError" and conv = conv10]
    load_never_fails [where saved = "Text (Inl SyntaxError)" and pr = "Inl SyntaxError"
      and conv = conv10]
    load_never_fails [where saved = "Text (Inr (Obj 2 [(''a'', Num (Fin 1))]))"
      and pr = "Inr (Obj 2 [(''a'', Num (Fin 1))])" and conv = conv10]
  by simp

text \<open>
  The claim as the specification states it (a slot that is present and does not parse as a
  JSON array is logged) fails on a slot that holds the empty string, on which
  \<^verbatim>\<open>JSON.parse\<close> would throw: \<^verbatim>\<open>if (saved)\<close> is false, nothing is parsed and nothing is logged.
\<close>

theorem empty_slot_is_not_logged:
  "App_constructor conv10 Empty_string =
     \<lparr>items = [], stored = None, alerts = [], console = []\<rparr>"
  by (simp add: App_constructor_def init_def)

text \<open>
  Claim C10. After \<^verbatim>\<open>remove(x)\<close> the collection holds the entries whose \<^verbatim>\<open>id\<close> is \<^verbatim>\<open>!==\<close>
  to that of \<open>x\<close>, each as often as before and in their former order (the entries
  themselves, so with their properties unchanged); no entry with that \<^verbatim>\<open>id\<close> is left,
  however many there were; and when no entry has that \<^verbatim>\<open>id\<close> the collection is unchanged.
\<close>

theorem remove_keeps_the_others:
  "subseq (items (remove x a)) (items a) \<and>
   mset (items (remove x a)) =
     filter_mset (\<lambda>i. \<not> strict_eq (item_id i) (item_id x)) (mset (items a)) \<and>
   (\<forall>i\<in>set (items (remove x a)). \<not> strict_eq (item_id i) (item_id x)) \<and>
   ((\<forall>i\<in>set (items a). \<not> strict_eq (item_id i) (item_id x)) \<longrightarrow>
      items (remove x a) = items a) \<and>
   alerts (remove x a) = alerts a \<and> console (remove x a) = console a"
  by (simp add: remove_def saveLocal_def)

text \<open>
  Two entries whose ids are two arrays with the same contents, as the file
  \<^verbatim>\<open>[{"id":[1],"name":"Widget"},{"id":[1],"name":"Gadget"}]\<close> leaves them, do not share
  an \<^verbatim>\<open>id\<close>: removing the first keeps the second. Two entries with the \<^verbatim>\<open>id\<close> \<^verbatim>\<open>"a"\<close> go
  together.
\<close>

theorem remove_keeps_the_others_witness:
  "items (remove \<lparr>item_id = Arr 3 [Num (Fin 1)], name = Str ''Widget'', price = Fin 0,
                   cost = Fin 0, amazonFees = Fin 0, sold = Fin 0, other = Props []\<rparr>
     \<lparr>items = [\<lparr>item_id = Arr 3 [Num (Fin 1)], name = Str ''Widget'', price = Fin 0,
                  cost = Fin 0, amazonFees = Fin 0, sold = Fin 0, other = Props []\<rparr>,
                \<lparr>item_id = Arr 5 [Num (Fin 1)], name = Str ''Gadget'', price = Fin 0,
                  cost = Fin 0, amazonFees = Fin 0, sold = Fin 0, other = Props []\<rparr>],
      stored = None, alerts = [], console = []\<rparr>) =
     [\<lparr>item_id = Arr 5 [Num (Fin 1)], name = Str ''Gadget'', price = Fin 0,
        cost = Fin 0, amazonFees = Fin 0, sold = Fin 0, other = Props []\<rparr>] \<and>
   items (remove \<lparr>item_id = Str ''a'', name = Str ''Widget'', price = Fin 10, cost = Fin 4,
                   amazonFees = Fin 1, sold = Fin 3, other = Props []\<rparr>
     \<lparr>items = [\<lparr>item_id = Str ''a'', name = Str ''Widget'', price = Fin 10, cost = Fin 4,
                  amazonFees = Fin 1, sold = Fin 3, other = Props []\<rparr>,
                \<lparr>item_id = Str ''b'', name = Str ''Gadget'', price = Fin 20, cost = Fin 10,
                  amazonFees = Fin 2, sold = Fin 1, other = Props []\<rparr>,
                \<lparr>item_id = Str ''a'', name = Str ''Copy'', price = Fin 1, cost = Fin 1,
                  amazonFees = Fin 1, sold = Fin 1, other = Props []\<rparr>],
      stored = None, alerts = [], console = []\<rparr>) =
     [\<lparr>item_id = Str ''b'', name = Str ''Gadget'', price = Fin 20, cost = Fin 10,
        amazonFees = Fin 2, sold = Fin 1, other = Props []\<rparr>] \<and>
   items (remove \<lparr>item_id = Str ''c'', name = Str ''Widget'', price = Fin 10, cost = Fin 4,
                   amazonFees = Fin 1, sold = Fin 3, other = Props []\<rparr>
     \<lparr>items = [\<lparr>item_id = Str ''b'', name = Str ''Gadget'', price = Fin 20, cost = Fin 10,
                  amazonFees = Fin 2, sold = Fin 1, other = Props []\<rparr>],
      stored = None, alerts = [], console = []\<rparr>) =
     [\<lparr>item_id = Str ''b'', name = Str ''Gadget'', price = Fin 20, cost = Fin 10,
        amazonFees = Fin 2, sold = Fin 1, other = Props []\<rparr>]"
  using remove_keeps_the_others [where x = "\<lparr>item_id = Str ''c'', name = Str ''Widget'',
        price = Fin 10, cost = Fin 4, amazonFees = Fin 1, sold = Fin 3, other = Props []\<rparr>"
      and a = "\<lparr>items = [\<lparr>item_id = Str ''b'', name = Str ''Gadget'', price = Fin 20,
        cost = Fin 10, amazonFees = Fin 2, sold = Fin 1, other = Props []\<rparr>],
        stored = None, alerts = [], console = []\<rparr>"]
  by (simp add: remove_def saveLocal_def strict_eq_def)

section \<open>Order and identifiers\<close>

text \<open>
  Claim C9, as the code has it. The ledger is an ordered sequence and each operation keeps
  the order of insertion: add appends the new item, with its generated \<^verbatim>\<open>id\<close>, after the
  items there were; update leaves every \<^verbatim>\<open>id\<close> in its place; remove leaves the remaining
  items in their order; import and load take the entries of the array in the array's order.
  Pairwise distinct ids stay distinct under update and remove, and under add when the
  generated \<^verbatim>\<open>id\<close> is not yet in the ledger. Import keeps every truthy \<^verbatim>\<open>id\<close> of
  the file, and load every \<^verbatim>\<open>id\<close> of the slot, as it is: neither makes ids distinct.
\<close>

theorem ledger_order_and_ids:
  "(\<not> invalid \<and> \<not> truthy (get val ''id'') \<and> addOrUpdate conv invalid val env a = Inr a' \<longrightarrow>
      (\<exists>v. items a' = items a @ [v] \<and> item_id v = Str (new_id env)) \<and>
      (distinct (map item_id (items a)) \<and> Str (new_id env) \<notin> set (map item_id (items a)) \<longrightarrow>
         distinct (map item_id (items a')))) \<and>
   (truthy (get val ''id'') \<longrightarrow>
      map item_id (items (state_after a (addOrUpdate conv invalid val env a))) =
      map item_id (items a)) \<and>
   subseq (items (remove x a)) (items a) \<and>
   (distinct (map item_id (items a)) \<longrightarrow> distinct (map item_id (items (remove x a)))) \<and>
   ((\<forall>p\<in>set xs. \<not> isl (sanitize conv p)) \<longrightarrow>
      length (items (uploadJSON_onload conv gen (Inr (Arr ar xs)) a)) = length xs \<and>
      (\<forall>k<length xs. \<exists>ps r. own_props (xs ! k) = Inr (ps, r) \<and>
         item_id (items (uploadJSON_onload conv gen (Inr (Arr ar xs)) a) ! k) =
           (if truthy (get ps ''id'') then get ps ''id'' else Str (new_id (gen k)))) \<and>
      length (items (App_constructor conv (Text (Inr (Arr ar xs))))) = length xs \<and>
      (\<forall>k<length xs. \<exists>ps r. own_props (xs ! k) = Inr (ps, r) \<and>
         item_id (items (App_constructor conv (Text (Inr (Arr ar xs)))) ! k) = get ps ''id''))"
proof -
  have add: "(\<exists>v. items a' = items a @ [v] \<and> item_id v = Str (new_id env)) \<and>
      (distinct (map item_id (items a)) \<and> Str (new_id env) \<notin> set (map item_id (items a)) \<longrightarrow>
         distinct (map item_id (items a')))"
    if "\<not> invalid \<and> \<not> truthy (get val ''id'') \<and> addOrUpdate conv invalid val env a = Inr a'"
  proof -
    from that obtain v where v: "items a' = items a @ [v]" "item_id v = Str (new_id env)"
      using add_appends by blast
    then show ?thesis by auto
  qed
  have rem: "subseq (items (remove x a)) (items a) \<and>
     (distinct (map item_id (items a)) \<longrightarrow> distinct (map item_id (items (remove x a))))"
    by (simp add: remove_def saveLocal_def distinct_map_filter)
  from add rem update_ids [of val a conv invalid env]
    import_ids [where xs = xs and conv = conv and gen = gen and a = a and ar = ar]
    load_ids [where xs = xs and conv = conv and ar = ar]
  show ?thesis by blast
qed

theorem ledger_order_and_ids_witness:
  "addOrUpdate conv10 False
     [(''id'', Str []), (''name'', Str ''Gadget''), (''price'', Num (Fin 20)),
      (''cost'', Num (Fin 10)), (''amazonFees'', Num (Fin 2)), (''sold'', Num (Fin 1))]
     (clock 0)
     \<lparr>items = [\<lparr>item_id = Str ''a'', name = Str ''Widget'', price = Fin 10, cost = Fin 4,
                 amazonFees = Fin 1, sold = Fin 3, other = Props []\<rparr>],
      stored = None, alerts = [], console = []\<rparr> =
   Inr \<lparr>items = [\<lparr>item_id = Str ''a'', name = Str ''Widget'', price = Fin 10, cost = Fin 4,
                    amazonFees = Fin 1, sold = Fin 3, other = Props []\<rparr>,
                  \<lparr>item_id = Str ''loyw3v28k3x9q'', name = Str ''Gadget'', price = Fin 20,
                    cost = Fin 10, amazonFees = Fin 2, sold = Fin 1, other = Props []\<rparr>],
        stored = Some [\<lparr>item_id = Str ''a'', name = Str ''Widget'', price = Fin 10, cost = Fin 4,
                    amazonFees = Fin 1, sold = Fin 3, other = Props []\<rparr>,
                  \<lparr>item_id = Str ''loyw3v28k3x9q'', name = Str ''Gadget'', price = Fin 20,
                    cost = Fin 10, amazonFees = Fin 2, sold = Fin 1, other = Props []\<rparr>],
        alerts = [], console = []\<rparr> \<and>
   distinct [Str ''a'', Str ''loyw3v28k3x9q'']"
  using ledger_order_and_ids [where conv = conv10 and invalid = False
      and val = "[(''id'', Str []), (''name'', Str ''Gadget''), (''price'', Num (Fin 20)),
        (''cost'', Num (Fin 10)), (''amazonFees'', Num (Fin 2)), (''sold'', Num (Fin 1))]"
      and env = "clock 0"
      and a = "\<lparr>items = [\<lparr>item_id = Str ''a'', name = Str ''Widget'', price = Fin 10, cost = Fin 4,
                 amazonFees = Fin 1, sold = Fin 3, other = Props []\<rparr>],
            stored = None, alerts = [], console = []\<rparr>"
      and a' = "\<lparr>items = [\<lparr>item_id = Str ''a'', name = Str ''Widget'', price = Fin 10, cost = Fin 4,
                    amazonFees = Fin 1, sold = Fin 3, other = Props []\<rparr>,
                  \<lparr>item_id = Str ''loyw3v28k3x9q'', name = Str ''Gadget'', price = Fin 20,
                    cost = Fin 10, amazonFees = Fin 2, sold = Fin 1, other = Props []\<rparr>],
        stored = Some [\<lparr>item_id = Str ''a'', name = Str ''Widget'', price = Fin 10, cost = Fin 4,
                    amazonFees = Fin 1, sold = Fin 3, other = Props []\<rparr>,
                  \<lparr>item_id = Str ''loyw3v28k3x9q'', name = Str ''Gadget'', price = Fin 20,
                    cost = Fin 10, amazonFees = Fin 2, sold = Fin 1, other = Props []\<rparr>],
        alerts = [], console = []\<rparr>"
      and x = "\<lparr>item_id = Str ''a'', name = Str ''Widget'', price = Fin 10, cost = Fin 4,
                 amazonFees = Fin 1, sold = Fin 3, other = Props []\<rparr>"
      and xs = "[]" and ar = 1 and gen = clock]
  by (simp add: addOrUpdate_def sanitize_props_def num_prop_def get_def or0_def extra_props_def
      saveLocal_def new_id_clock0)

text \<open>
  The claim as the specification states it (ids pairwise distinct after every operation)
  fails on the file \<^verbatim>\<open>[{"id":"a","name":"Widget"},{"id":"a","name":"Gadget"}]\<close>: both
  entries keep the \<^verbatim>\<open>id\<close> they came with.
\<close>

theorem import_keeps_duplicate_ids:
  "map item_id (items (uploadJSON_onload conv10 clock
      (Inr (Arr 1 [Obj 2 [(''id'', Str ''a''), (''name'', Str ''Widget'')],
                 Obj 3 [(''id'', Str ''a''), (''name'', Str ''Gadget'')]])) init)) =
     [Str ''a'', Str ''a''] \<and>
   \<not> distinct (map item_id (items (uploadJSON_onload conv10 clock
      (Inr (Arr 1 [Obj 2 [(''id'', Str ''a''), (''name'', Str ''Widget'')],
                 Obj 3 [(''id'', Str ''a''), (''name'', Str ''Gadget'')]])) init)))"
  by (simp add: uploadJSON_onload_def import_body_def import_entry_def sanitize_def
      sanitize_props_def num_prop_def get_def or0_def extra_props_def saveLocal_def init_def)

section \<open>CSV export\<close>

text \<open>
  Claim C8. When every \<^verbatim>\<open>name\<close> has a string (\<open>nm\<close>), the CSV text is these rows with a
  newline between each two: the header row \<^verbatim>\<open>name, price, cost, amazonFees, sold, profit\<close>;
  one row for each item, in the order of the collection, whose last cell is
  \<open>perItemProfit\<close> of the item; and the row
  \<^verbatim>\<open>TOTALS, totalRevenue, totalCost, totalFees, totalSold, totalProfit\<close>. A row is its cells with
  a comma between each two, and a cell is its string in double quotes (character \<open>0x22\<close>)
  with every double quote in it doubled, so that it can be read back. For the two items
  of the example these are the four rows written out below, the last of them ending in 23.
\<close>

theorem exportCSV_table:
  "((\<forall>it\<in>set its. String digits obj_string (name it) = Inr (nm it)) \<longrightarrow>
      exportCSV digits obj_string its =
        Inr (separated [CHR 0x0A] (map (\<lambda>r. separated '','' (map quoted r))
          ([[''name'', ''price'', ''cost'', ''amazonFees'', ''sold'', ''profit'']] @
           map (\<lambda>it. [nm it, Number_toString digits (price it), Number_toString digits (cost it),
                      Number_toString digits (amazonFees it), Number_toString digits (sold it),
                      Number_toString digits (perItemProfit it)]) its @
           [[''TOTALS'', Number_toString digits (totalRevenue its),
             Number_toString digits (totalCost its), Number_toString digits (totalFees its),
             Number_toString digits (totalSold its), Number_toString digits (totalProfit its)]])))) \<and>
   quoted s =
     [CHR 0x22] @ concat (map (\<lambda>c. if c = CHR 0x22 then [CHR 0x22, CHR 0x22] else [c]) s) @ [CHR 0x22] \<and>
   unquoted (quoted s) = Some s \<and>
   (let q = [CHR 0x22] in
    exportCSV digits obj_string
      [\<lparr>item_id = ia, name = Str na, price = Fin 10, cost = Fin 4, amazonFees = Fin 1,
         sold = Fin 3, other = ra\<rparr>,
       \<lparr>item_id = ib, name = Str nb, price = Fin 20, cost = Fin 10, amazonFees = Fin 2,
         sold = Fin 1, other = rb\<rparr>] =
      Inr (separated [CHR 0x0A]
        [q @ ''name'' @ q @ '','' @ q @ ''price'' @ q @ '','' @ q @ ''cost'' @ q @ '','' @
           q @ ''amazonFees'' @ q @ '','' @ q @ ''sold'' @ q @ '','' @ q @ ''profit'' @ q,
         quoted na @ '','' @ q @ ''10'' @ q @ '','' @ q @ ''4'' @ q @ '','' @
           q @ ''1'' @ q @ '','' @ q @ ''3'' @ q @ '','' @ q @ ''15'' @ q,
         quoted nb @ '','' @ q @ ''20'' @ q @ '','' @ q @ ''10'' @ q @ '','' @
           q @ ''2'' @ q @ '','' @ q @ ''1'' @ q @ '','' @ q @ ''8'' @ q,
         q @ ''TOTALS'' @ q @ '','' @ q @ ''50'' @ q @ '','' @ q @ ''22'' @ q @ '','' @
           q @ ''5'' @ q @ '','' @ q @ ''4'' @ q @ '','' @ q @ ''23'' @ q]))"
proof -
  have table: "exportCSV digits obj_string its =
        Inr (separated [CHR 0x0A] (map (\<lambda>r. separated '','' (map quoted r))
          ([[''name'', ''price'', ''cost'', ''amazonFees'', ''sold'', ''profit'']] @
           map (\<lambda>it. [nm it, Number_toString digits (price it), Number_toString digits (cost it),
                      Number_toString digits (amazonFees it), Number_toString digits (sold it),
                      Number_toString digits (perItemProfit it)]) its @
           [[''TOTALS'', Number_toString digits (totalRevenue its),
             Number_toString digits (totalCost its), Number_toString digits (totalFees its),
             Number_toString digits (totalSold its), Number_toString digits (totalProfit its)]])))"
    if "\<forall>it\<in>set its. String digits obj_string (name it) = Inr (nm it)"
    using that exportCSV_rows [of its digits obj_string nm]
    by (simp only: join_separated)
  have two: "(let q = [CHR 0x22] in
    exportCSV digits obj_string
      [\<lparr>item_id = ia, name = Str na, price = Fin 10, cost = Fin 4, amazonFees = Fin 1,
         sold = Fin 3, other = ra\<rparr>,
       \<lparr>item_id = ib, name = Str nb, price = Fin 20, cost = Fin 10, amazonFees = Fin 2,
         sold = Fin 1, other = rb\<rparr>] =
      Inr (separated [CHR 0x0A]
        [q @ ''name'' @ q @ '','' @ q @ ''price'' @ q @ '','' @ q @ ''cost'' @ q @ '','' @
           q @ ''amazonFees'' @ q @ '','' @ q @ ''sold'' @ q @ '','' @ q @ ''profit'' @ q,
         quoted na @ '','' @ q @ ''10'' @ q @ '','' @ q @ ''4'' @ q @ '','' @
           q @ ''1'' @ q @ '','' @ q @ ''3'' @ q @ '','' @ q @ ''15'' @ q,
         quoted nb @ '','' @ q @ ''20'' @ q @ '','' @ q @ ''10'' @ q @ '','' @
           q @ ''2'' @ q @ '','' @ q @ ''1'' @ q @ '','' @ q @ ''8'' @ q,
         q @ ''TOTALS'' @ q @ '','' @ q @ ''50'' @ q @ '','' @ q @ ''22'' @ q @ '','' @
           q @ ''5'' @ q @ '','' @ q @ ''4'' @ q @ '','' @ q @ ''23'' @ q]))"
    by (subst exportCSV_rows [where nm = "\<lambda>it. projr (String digits obj_string (name it))"])
      (auto simp: totalSold_def totalRevenue_def totalCost_def totalFees_def totalProfit_def
        perItemProfit_def minus_jsnum_def or0_def decimal_values to_double_ints Let_def
        separated_def quoted_def)
  from table two unquoted_quoted [of s] show ?thesis
    by (simp add: quoted_def)
qed

text \<open>The text for one item, character by character: three rows, two newlines.\<close>

theorem exportCSV_table_witness:
  "(let q = [CHR 0x22]; n = [CHR 0x0A] in
    exportCSV (\<lambda>r. []) (\<lambda>v. Inl TypeError)
      [\<lparr>item_id = Str ''a'', name = Str ''Widget'', price = Fin 10, cost = Fin 4, amazonFees = Fin 1,
         sold = Fin 3, other = Props []\<rparr>] =
    Inr (q @ ''name'' @ q @ '','' @ q @ ''price'' @ q @ '','' @ q @ ''cost'' @ q @ '','' @
           q @ ''amazonFees'' @ q @ '','' @ q @ ''sold'' @ q @ '','' @ q @ ''profit'' @ q @ n @
         q @ ''Widget'' @ q @ '','' @ q @ ''10'' @ q @ '','' @ q @ ''4'' @ q @ '','' @
           q @ ''1'' @ q @ '','' @ q @ ''3'' @ q @ '','' @ q @ ''15'' @ q @ n @
         q @ ''TOTALS'' @ q @ '','' @ q @ ''30'' @ q @ '','' @ q @ ''12'' @ q @ '','' @
           q @ ''3'' @ q @ '','' @ q @ ''3'' @ q @ '','' @ q @ ''15'' @ q))"
  using exportCSV_table [where digits = "\<lambda>r. []" and obj_string = "\<lambda>v. Inl TypeError"
      and its = "[\<lparr>item_id = Str ''a'', name = Str ''Widget'', price = Fin 10, cost = Fin 4,
        amazonFees = Fin 1, sold = Fin 3, other = Props []\<rparr>]"
      and nm = "\<lambda>it. ''Widget''" and s = "[]" and na = "[]" and nb = "[]" and ia = Null
      and ib = Null and ra = "Props []" and rb = "Props []"]
  by (simp add: totalSold_def totalRevenue_def totalCost_def totalFees_def totalProfit_def
      perItemProfit_def minus_jsnum_def or0_def decimal.simps to_double_ints
      separated_def quoted_def)

section \<open>JSON export and re-import\<close>

text \<open>
  Claim C7, as the code has it. For every ledger whose items are plain objects with
  finite numbers, a truthy \<^verbatim>\<open>id\<close> that JSON writes as it is (a non-empty string, say) and a
  \<^verbatim>\<open>name\<close> that JSON writes as it is or that is \<^verbatim>\<open>undefined\<close>, importing the file that
  \<^verbatim>\<open>downloadJSON\<close> offers yields a collection with the same tuples
  \<open>(id, name, price, cost, amazonFees, sold)\<close>, in the same order and so as a multiset.
\<close>

theorem reimport_preserves_tuples:
  "(\<forall>it\<in>set its. survives_json alloc it) \<longrightarrow>
     map tuple (items (uploadJSON_onload conv gen (downloaded alloc its) a)) = map tuple its \<and>
     mset (map tuple (items (uploadJSON_onload conv gen (downloaded alloc its) a))) = mset (map tuple its)"
proof
  assume "\<forall>it\<in>set its. survives_json alloc it"
  from reimport_traverse [OF this, of conv gen 0] obtain its' where
    its': "traverse (\<lambda>(k, p). import_entry conv (gen k) p)
             (enumerate 0 (map (\<lambda>it. reparse alloc (item_object it)) its)) = Inr its'"
      "map tuple its' = map tuple its"
    by blast
  have "downloaded alloc its = Inr (Arr (alloc 0) (map (\<lambda>it. reparse alloc (item_object it)) its))"
    by (simp add: downloaded_def comp_def)
  with its'(1) have "items (uploadJSON_onload conv gen (downloaded alloc its) a) = its'"
    by (simp add: uploadJSON_onload_def import_body_cases saveLocal_def)
  with its'(2) show "map tuple (items (uploadJSON_onload conv gen (downloaded alloc its) a)) = map tuple its \<and>
     mset (map tuple (items (uploadJSON_onload conv gen (downloaded alloc its) a))) = mset (map tuple its)"
    by simp
qed

theorem reimport_preserves_tuples_witness:
  "map tuple (items (uploadJSON_onload conv10 clock
      (downloaded copies [\<lparr>item_id = Str ''a'', name = Str ''Widget'', price = Fin 10, cost = Fin 4,
         amazonFees = Fin 1, sold = Fin 3, other = Props [(''note'', Undefined)]\<rparr>]) init)) =
   [(Str ''a'', Str ''Widget'', Fin 10, Fin 4, Fin 1, Fin 3)]"
  using reimport_preserves_tuples [where conv = conv10 and gen = clock and a = init
      and alloc = copies
      and its = "[\<lparr>item_id = Str ''a'', name = Str ''Widget'', price = Fin 10, cost = Fin 4,
         amazonFees = Fin 1, sold = Fin 3, other = Props [(''note'', Undefined)]\<rparr>]"]
  by (simp add: survives_json_def tuple_def)

text \<open>
  The claim as the specification states it (for every ledger) fails on the ledger that
  importing \<^verbatim>\<open>[{"id":"a","name":"Widget","price":1e999,"cost":4,"amazonFees":1,"sold":3}]\<close>
  leaves: \<^verbatim>\<open>JSON.stringify\<close> writes the price \<^verbatim>\<open>Infinity\<close> as \<^verbatim>\<open>null\<close>, and the import reads
  \<^verbatim>\<open>Number(null) || 0\<close>, which is 0.
\<close>

theorem infinite_price_is_lost_on_reimport:
  "items (uploadJSON_onload conv10 clock
      (Inr (Arr 1 [Obj 2 [(''id'', Str ''a''), (''name'', Str ''Widget''), (''price'', Num PInf),
                      (''cost'', Num (Fin 4)), (''amazonFees'', Num (Fin 1)),
                      (''sold'', Num (Fin 3))]])) init) =
     [\<lparr>item_id = Str ''a'', name = Str ''Widget'', price = PInf, cost = Fin 4,
        amazonFees = Fin 1, sold = Fin 3, other = Props []\<rparr>] \<and>
   map tuple (items (uploadJSON_onload conv10 clock
      (downloaded copies [\<lparr>item_id = Str ''a'', name = Str ''Widget'', price = PInf, cost = Fin 4,
         amazonFees = Fin 1, sold = Fin 3, other = Props []\<rparr>])
      \<lparr>items = [\<lparr>item_id = Str ''a'', name = Str ''Widget'', price = PInf, cost = Fin 4,
         amazonFees = Fin 1, sold = Fin 3, other = Props []\<rparr>],
       stored = None, alerts = [], console = []\<rparr>)) =
     [(Str ''a'', Str ''Widget'', Fin 0, Fin 4, Fin 1, Fin 3)] \<and>
   mset (map tuple (items (uploadJSON_onload conv10 clock
      (downloaded copies [\<lparr>item_id = Str ''a'', name = Str ''Widget'', price = PInf, cost = Fin 4,
         amazonFees = Fin 1, sold = Fin 3, other = Props []\<rparr>])
      \<lparr>items = [\<lparr>item_id = Str ''a'', name = Str ''Widget'', price = PInf, cost = Fin 4,
         amazonFees = Fin 1, sold = Fin 3, other = Props []\<rparr>],
       stored = None, alerts = [], console = []\<rparr>))) \<noteq>
   mset (map tuple [\<lparr>item_id = Str ''a'', name = Str ''Widget'', price = PInf, cost = Fin 4,
         amazonFees = Fin 1, sold = Fin 3, other = Props []\<rparr>])"
  by (simp add: uploadJSON_onload_def import_body_def import_entry_def sanitize_def
      sanitize_props_def num_prop_def get_def or0_def extra_props_def saveLocal_def init_def
      downloaded_def item_object_def tuple_def)

end
